theory Spec2Isabelle
  imports Main
begin

section \<open>Data model (jobs/models.py)\<close>

text \<open>
  A timestamp is a number of microseconds since the epoch, a calendar date a day number.
  \<open>datetime.date()\<close> keeps the day and drops the time of day.
\<close>

type_synonym datetime = int
type_synonym date = int

definition date_of :: "datetime \<Rightarrow> date" where
  "date_of d = d div 86400000000"

text \<open>The caller, as the authentication layer hands it over: primary key and role.\<close>

record User =
  user_id :: int
  role :: string

text \<open>\<open>class Job\<close>. Foreign keys are the primary key of the row they point to.\<close>

record Job =
  job_id :: int
  job_title :: string
  job_description :: string
  client_name :: string
  scheduled_date :: "datetime option"
  job_status :: string
  priority :: string
  created_by :: int
  assigned_to :: int
  job_created_at :: datetime
  job_updated_at :: datetime
  overdue :: bool

text \<open>\<open>class JobTask\<close>; \<open>order\<close> is the field \<open>task_order\<close>.\<close>

record JobTask =
  task_id :: int
  task_title :: string
  task_description :: string
  task_order :: int
  completed_at :: "datetime option"
  task_status :: string
  task_job :: int
  task_created_at :: datetime
  task_updated_at :: datetime

text \<open>\<open>class Equipment\<close>.\<close>

record Equipment =
  eq_id :: int
  eq_name :: string
  eq_type :: string
  serial_number :: string
  is_active :: bool
  eq_created_at :: datetime
  eq_updated_at :: datetime

text \<open>
  \<open>class JobTaskEquipment\<close>. The row carries the equipment object that the ORM reaches as
  \<open>req.equipment\<close>; its \<open>equipment_id\<close> is \<open>eq_id (equipment r)\<close>.
\<close>

record JobTaskEquipment =
  jte_id :: int
  job_task :: int
  equipment :: Equipment
  quantity :: int
  jte_notes :: string
  jte_created_at :: datetime

text \<open>
  The relational store: one list of rows per table, and the next primary key of the
  \<open>job_task_equipment\<close> table.
\<close>

record database =
  jobs :: "Job list"
  job_tasks :: "JobTask list"
  equipment_catalog :: "Equipment list"
  job_task_equipment :: "JobTaskEquipment list"
  jte_next_id :: int

text \<open>\<open>get_object_or_404(Job, id=job_id)\<close> and \<open>get_object_or_404(JobTask, id=task_id)\<close>.\<close>

definition get_job :: "database \<Rightarrow> int \<Rightarrow> Job option" where
  "get_job db jid = find (\<lambda>j. job_id j = jid) (jobs db)"

definition get_task :: "database \<Rightarrow> int \<Rightarrow> JobTask option" where
  "get_task db tid = find (\<lambda>t. task_id t = tid) (job_tasks db)"

text \<open>The reverse relations \<open>job.jobtask_set\<close> and \<open>task.jobtaskequipment_set\<close>.\<close>

definition jobtask_set :: "database \<Rightarrow> Job \<Rightarrow> JobTask list" where
  "jobtask_set db job = filter (\<lambda>t. task_job t = job_id job) (job_tasks db)"

definition jobtaskequipment_set :: "database \<Rightarrow> JobTask \<Rightarrow> JobTaskEquipment list" where
  "jobtaskequipment_set db task = filter (\<lambda>r. job_task r = task_id task) (job_task_equipment db)"

text \<open>
  The write of \<open>instance.save()\<close>: it stamps \<open>updated_at\<close> (\<open>auto_now\<close>) and writes the row
  with the instance's primary key; when the table has no such row it inserts it, stamping
  \<open>created_at\<close> too (\<open>auto_now_add\<close>). The constraints of the table are not checked here:
  the two status endpoints write a row they have just loaded with only \<open>status\<close> (and
  \<open>completed_at\<close>) changed, and \<open>JobTaskSerializer.update\<close>, which can change constrained
  columns, checks them with \<open>JobTask_save_error\<close> before it writes.
\<close>

definition save_job :: "datetime \<Rightarrow> Job \<Rightarrow> database \<Rightarrow> database" where
  "save_job now job db =
     (let row = job\<lparr>job_updated_at := now\<rparr> in
      if list_ex (\<lambda>j. job_id j = job_id job) (jobs db)
      then db\<lparr>jobs := map (\<lambda>j. if job_id j = job_id job then row else j) (jobs db)\<rparr>
      else db\<lparr>jobs := jobs db @ [row\<lparr>job_created_at := now\<rparr>]\<rparr>)"

definition save_task :: "datetime \<Rightarrow> JobTask \<Rightarrow> database \<Rightarrow> database" where
  "save_task now task db =
     (let row = task\<lparr>task_updated_at := now\<rparr> in
      if list_ex (\<lambda>t. task_id t = task_id task) (job_tasks db)
      then db\<lparr>job_tasks := map (\<lambda>t. if task_id t = task_id task then row else t) (job_tasks db)\<rparr>
      else db\<lparr>job_tasks := job_tasks db @ [row\<lparr>task_created_at := now\<rparr>]\<rparr>)"

section \<open>Permissions (jobs/permissions.py)\<close>

text \<open>\<open>request.user\<close> is \<open>None\<close> for an anonymous request (\<open>is_authenticated\<close> false).\<close>

definition IsAdmin_has_permission :: "User option \<Rightarrow> bool" where
  "IsAdmin_has_permission u = (case u of None \<Rightarrow> False | Some usr \<Rightarrow> role usr = ''ADMIN'')"

definition IsAdminOrSalesAgent_has_permission :: "User option \<Rightarrow> bool" where
  "IsAdminOrSalesAgent_has_permission u =
     (case u of None \<Rightarrow> False | Some usr \<Rightarrow> role usr \<in> set [''ADMIN'', ''SALES_AGENT''])"

definition IsAssignedTechnician_has_object_permission :: "User option \<Rightarrow> Job \<Rightarrow> bool" where
  "IsAssignedTechnician_has_object_permission u obj =
     (case u of None \<Rightarrow> False
      | Some usr \<Rightarrow> role usr = ''TECHNICIAN'' \<and> assigned_to obj = user_id usr)"

section \<open>Responses of the technician endpoints (jobs/views.py)\<close>

record equipment_data =
  equipment_name :: string
  equipment_type :: string
  ed_quantity :: int
  ed_notes :: string

record task_data =
  td_id :: int
  td_title :: string
  td_description :: string
  td_order :: int
  td_status :: string
  required_equipment :: "equipment_data list"

record job_data =
  jd_id :: int
  jd_title :: string
  jd_client_name :: string
  jd_status :: string
  jd_priority :: string
  jd_scheduled_date :: "datetime option"
  jd_description :: string
  tasks_count :: nat
  completed_tasks :: nat
  active_tasks :: "task_data list"

text \<open>The dictionary \<open>grouped_jobs\<close>, its four keys in the order of the source.\<close>

record grouped_jobs =
  g_today :: "job_data list"
  g_upcoming :: "job_data list"
  g_overdue :: "job_data list"
  g_unscheduled :: "job_data list"

record summary =
  total_active_jobs :: nat
  today_count :: nat
  overdue_count :: nat

text \<open>
  A response is its HTTP status and body: \<open>Detail c d\<close> is \<open>Response({"detail": d}, status=c)\<close>,
  \<open>Http404\<close> what \<open>get_object_or_404\<close> raises, \<open>DoesNotExist\<close> the exception of following a
  foreign key whose row is gone, \<open>IncompleteTasks\<close> the 400 response of the completion gate
  with its list of \<open>(id, title, status)\<close>. The other three are the 200 responses.
\<close>

datatype response =
    Detail nat string
  | Http404
  | DoesNotExist
  | IncompleteTasks string "(int \<times> string \<times> string) list"
  | JobUpdated string "int \<times> string \<times> string \<times> string"
  | TaskUpdated string "int \<times> string \<times> string \<times> datetime option"
  | Dashboard grouped_jobs summary

section \<open>Status updates by the technician (jobs/views.py)\<close>

text \<open>
  \<open>TechnicianTaskUpdateView.patch\<close>. \<open>request.data.get('status')\<close> is \<open>None\<close> when the body
  has no such key, and \<open>None\<close> is not in the list of statuses.
\<close>

definition TechnicianTaskUpdateView_patch ::
  "datetime \<Rightarrow> database \<Rightarrow> User \<Rightarrow> int \<Rightarrow> string option \<Rightarrow> response \<times> database" where
  "TechnicianTaskUpdateView_patch now db user tid req_status =
     (if role user \<noteq> ''TECHNICIAN''
      then (Detail 403 ''This endpoint is only for technicians'', db)
      else case get_task db tid of
        None \<Rightarrow> (Http404, db)
      | Some task \<Rightarrow>
         (case get_job db (task_job task) of
            None \<Rightarrow> (DoesNotExist, db)
          | Some job \<Rightarrow>
             if assigned_to job \<noteq> user_id user
             then (Detail 403 ''You can only update tasks for jobs assigned to you'', db)
             else (case req_status of
                None \<Rightarrow> (Detail 400
                  ''Invalid status. Must be one of: NOT_STARTED, IN_PROGRESS, COMPLETED'', db)
              | Some new_status \<Rightarrow>
                 if new_status \<notin> set [''NOT_STARTED'', ''IN_PROGRESS'', ''COMPLETED'']
                 then (Detail 400
                   ''Invalid status. Must be one of: NOT_STARTED, IN_PROGRESS, COMPLETED'', db)
                 else
                   let old_status = task_status task;
                       task1 = task\<lparr>task_status := new_status\<rparr>;
                       task2 = (if new_status = ''COMPLETED'' \<and> completed_at task1 = None
                                then task1\<lparr>completed_at := Some now\<rparr>
                                else if new_status \<noteq> ''COMPLETED''
                                then task1\<lparr>completed_at := None\<rparr>
                                else task1)
                   in (TaskUpdated
                         (''Task status updated from '' @ old_status @ '' to '' @ new_status)
                         (task_id task2, task_title task2, task_status task2, completed_at task2),
                       save_task now task2 db))))"

text \<open>
  \<open>TechnicianJobUpdateView.patch\<close>. \<open>incomplete_tasks\<close> is read in the default ordering of
  \<open>JobTask\<close> (\<open>ordering = ["job", "order"]\<close>).
\<close>

definition TechnicianJobUpdateView_patch ::
  "datetime \<Rightarrow> database \<Rightarrow> User \<Rightarrow> int \<Rightarrow> string option \<Rightarrow> response \<times> database" where
  "TechnicianJobUpdateView_patch now db user jid req_status =
     (if role user \<noteq> ''TECHNICIAN''
      then (Detail 403 ''This endpoint is only for technicians'', db)
      else case get_job db jid of
        None \<Rightarrow> (Http404, db)
      | Some job \<Rightarrow>
         if assigned_to job \<noteq> user_id user
         then (Detail 403 ''You can only update jobs assigned to you'', db)
         else (case req_status of
            None \<Rightarrow> (Detail 400
              ''Invalid status. Must be one of: PENDING, IN_PROGRESS, COMPLETED, CANCELLED'', db)
          | Some new_status \<Rightarrow>
             if new_status \<notin> set [''PENDING'', ''IN_PROGRESS'', ''COMPLETED'', ''CANCELLED'']
             then (Detail 400
               ''Invalid status. Must be one of: PENDING, IN_PROGRESS, COMPLETED, CANCELLED'', db)
             else
               let incomplete_tasks =
                     sort_key task_order
                       (filter (\<lambda>t. task_status t \<noteq> ''COMPLETED'') (jobtask_set db job))
               in if new_status = ''COMPLETED'' \<and> incomplete_tasks \<noteq> []
                  then (IncompleteTasks ''Cannot complete job until all tasks are completed''
                          (map (\<lambda>t. (task_id t, task_title t, task_status t)) incomplete_tasks),
                        db)
                  else
                    let old_status = job_status job;
                        job1 = job\<lparr>job_status := new_status\<rparr>
                    in (JobUpdated
                          (''Job status updated from '' @ old_status @ '' to '' @ new_status)
                          (job_id job1, job_title job1, job_status job1, client_name job1),
                        save_job now job1 db)))"

section \<open>General job endpoint (jobs/views.py, jobs/serializers.py)\<close>

text \<open>
  The responses of \<open>JobViewSet\<close> to a partial update: 403 (or 401), 404, 400 with the field
  error, and 200 with the serialized job.
\<close>

datatype viewset_response = PermissionDenied | NotFound | InvalidChoice | JobSaved Job

text \<open>\<open>status = serializers.ChoiceField(choices=Job.STATUS_CHOICES)\<close> of \<open>JobSerializer\<close>.\<close>

definition JobSerializer_validate_status :: "string \<Rightarrow> bool" where
  "JobSerializer_validate_status v =
     (v \<in> set [''PENDING'', ''IN_PROGRESS'', ''COMPLETED'', ''CANCELLED''])"

text \<open>
  \<open>JobSerializer\<close> defines no \<open>validate\<close> and no \<open>update\<close>: the update is that of
  \<open>ModelSerializer\<close>, which sets each validated attribute on the instance and saves it.
  Here the validated data holds only \<open>status\<close>.
\<close>

definition JobSerializer_update_status :: "datetime \<Rightarrow> database \<Rightarrow> Job \<Rightarrow> string \<Rightarrow> Job \<times> database" where
  "JobSerializer_update_status now db instance v =
     (let instance1 = instance\<lparr>job_status := v\<rparr>
      in (instance1\<lparr>job_updated_at := now\<rparr>, save_job now instance1 db))"

text \<open>
  \<open>PATCH /jobs/<id>/\<close> with the body \<open>{"status": v}\<close> on \<open>JobViewSet\<close>, a \<open>ModelViewSet\<close>
  with \<open>serializer_class = JobSerializer\<close> and
  \<open>permission_classes = [IsAdminOrSalesAgent]\<close>: permission, lookup, validation, update.
\<close>

definition JobViewSet_partial_update_status ::
  "datetime \<Rightarrow> database \<Rightarrow> User option \<Rightarrow> int \<Rightarrow> string \<Rightarrow> viewset_response \<times> database" where
  "JobViewSet_partial_update_status now db user jid v =
     (if \<not> IsAdminOrSalesAgent_has_permission user then (PermissionDenied, db)
      else case get_job db jid of
        None \<Rightarrow> (NotFound, db)
      | Some job \<Rightarrow>
         if \<not> JobSerializer_validate_status v then (InvalidChoice, db)
         else let (job1, db1) = JobSerializer_update_status now db job v
              in (JobSaved job1, db1))"

section \<open>Overdue sweep (jobs/tasks.py)\<close>

text \<open>
  The lookup \<open>scheduled_date__lt=now, status__in=['PENDING', 'IN_PROGRESS']\<close>, used by both
  queries of \<open>check_overdue_jobs\<close>. A row whose \<open>scheduled_date\<close> is NULL does not satisfy
  \<open>scheduled_date < now\<close>.
\<close>

definition scheduled_lt_and_active :: "datetime \<Rightarrow> Job \<Rightarrow> bool" where
  "scheduled_lt_and_active now j =
     ((case scheduled_date j of None \<Rightarrow> False | Some d \<Rightarrow> d < now)
      \<and> job_status j \<in> set [''PENDING'', ''IN_PROGRESS''])"

text \<open>
  \<open>overdue_jobs = Job.objects.filter(scheduled_date__lt=now, status__in=[...], overdue=False)\<close>
\<close>

definition overdue_jobs :: "datetime \<Rightarrow> Job \<Rightarrow> bool" where
  "overdue_jobs now j = (scheduled_lt_and_active now j \<and> overdue j = False)"

text \<open>
  \<open>not_overdue_jobs = Job.objects.filter(overdue=True).exclude(scheduled_date__lt=now,
  status__in=[...])\<close>. The ORM's \<open>exclude\<close> on a nullable column keeps the rows where the
  column is NULL (it negates \<open>scheduled_date < now AND scheduled_date IS NOT NULL AND status
  IN (...)\<close>), so the excluded rows are exactly those of the lookup above.
\<close>

definition not_overdue_jobs :: "datetime \<Rightarrow> Job \<Rightarrow> bool" where
  "not_overdue_jobs now j = (overdue j = True \<and> \<not> scheduled_lt_and_active now j)"

text \<open>
  \<open>queryset.update(overdue=v)\<close>: one bulk write of the column on the selected rows (no
  \<open>save()\<close>, so \<open>updated_at\<close> is untouched), returning the number of rows selected.
\<close>

definition update_overdue :: "(Job \<Rightarrow> bool) \<Rightarrow> bool \<Rightarrow> Job list \<Rightarrow> Job list \<times> nat" where
  "update_overdue sel v js =
     (map (\<lambda>j. if sel j then j\<lparr>overdue := v\<rparr> else j) js, length (filter sel js))"

definition mark_pass :: "datetime \<Rightarrow> Job list \<Rightarrow> Job list \<times> nat" where
  "mark_pass now js = update_overdue (overdue_jobs now) True js"

definition clear_pass :: "datetime \<Rightarrow> Job list \<Rightarrow> Job list \<times> nat" where
  "clear_pass now js = update_overdue (not_overdue_jobs now) False js"

record sweep_result =
  marked_overdue :: nat
  cleared_overdue :: nat
  timestamp :: datetime

text \<open>\<open>check_overdue_jobs\<close>, with \<open>timezone.now()\<close> as the argument \<open>now\<close>.\<close>

definition check_overdue_jobs :: "datetime \<Rightarrow> Job list \<Rightarrow> Job list \<times> sweep_result" where
  "check_overdue_jobs now js =
     (let (js1, updated_count) = mark_pass now js;
          (js2, cleared_count) = clear_pass now js1
      in (js2, \<lparr>marked_overdue = updated_count, cleared_overdue = cleared_count,
                timestamp = now\<rparr>))"

section \<open>Task serializer and equipment ledger (jobs/serializers.py)\<close>

datatype error = ValidationError | IntegrityError | OverflowError

text \<open>
  The integers the database driver can bind to a statement (64-bit signed; a Python integer
  outside this range makes the query raise \<open>OverflowError\<close>).
\<close>

definition int64 :: "int \<Rightarrow> bool" where
  "int64 v = (- 9223372036854775808 \<le> v \<and> v \<le> 9223372036854775807)"

text \<open>
  \<open>str.strip()\<close> on an ASCII string: the whitespace characters are those with codes 9 to 13
  and 28 to 32.
\<close>

definition is_whitespace :: "char \<Rightarrow> bool" where
  "is_whitespace c = (let n = (of_char c :: nat) in (9 \<le> n \<and> n \<le> 13) \<or> (28 \<le> n \<and> n \<le> 32))"

definition strip :: "string \<Rightarrow> string" where
  "strip s = rev (dropWhile is_whitespace (rev (dropWhile is_whitespace s)))"

text \<open>
  One item of \<open>equipment_requirements\<close>: \<open>equipment_id\<close> is required, \<open>quantity\<close> and
  \<open>notes\<close> may be absent from the dictionary.
\<close>

record requirement =
  req_equipment_id :: int
  req_quantity :: "int option"
  req_notes :: "string option"

text \<open>
  \<open>quantity = models.PositiveIntegerField(default=1)\<close>: the validators of a
  \<open>PositiveIntegerField\<close> accept the integers from 0 to the largest value \<open>max_value\<close> of the
  database column, 0 included.
\<close>

definition PositiveIntegerField_validate :: "int \<Rightarrow> int \<Rightarrow> error + int" where
  "PositiveIntegerField_validate max_value v =
     (if v < 0 \<or> max_value < v then Inl ValidationError else Inr v)"

text \<open>
  Field validation of \<open>JobTaskEquipmentSerializer\<close> (a \<open>ModelSerializer\<close> of
  \<open>JobTaskEquipment\<close>) on one item, and of the list field
  \<open>equipment_requirements = JobTaskEquipmentSerializer(many=True, required=False)\<close>.
  \<open>equipment_id\<close> is a plain \<open>IntegerField\<close> (any integer), \<open>quantity\<close> the field of the
  model's \<open>PositiveIntegerField\<close>, \<open>notes\<close> a character field that may be blank and is
  trimmed. Of the checks on \<open>notes\<close> only the trimming is modelled, not those on its
  characters.
\<close>

definition JobTaskEquipmentSerializer_validate :: "int \<Rightarrow> requirement \<Rightarrow> error + requirement" where
  "JobTaskEquipmentSerializer_validate max_value r =
     (let r1 = r\<lparr>req_notes := map_option strip (req_notes r)\<rparr>
      in case req_quantity r of
           None \<Rightarrow> Inr r1
         | Some q \<Rightarrow>
            (case PositiveIntegerField_validate max_value q of
               Inl e \<Rightarrow> Inl e
             | Inr q' \<Rightarrow> Inr (r1\<lparr>req_quantity := Some q'\<rparr>)))"

fun validate_equipment_requirements :: "int \<Rightarrow> requirement list \<Rightarrow> error + requirement list" where
  "validate_equipment_requirements max_value [] = Inr []"
| "validate_equipment_requirements max_value (r # rs) =
     (case JobTaskEquipmentSerializer_validate max_value r of
        Inl e \<Rightarrow> Inl e
      | Inr r' \<Rightarrow>
         (case validate_equipment_requirements max_value rs of
            Inl e \<Rightarrow> Inl e
          | Inr rs' \<Rightarrow> Inr (r' # rs')))"

text \<open>
  \<open>validated_data\<close> of \<open>JobTaskSerializer\<close>: a dictionary with any subset of the writable
  fields, \<open>None\<close> for an absent key. \<open>completed_at\<close> is nullable, so a present key may hold
  \<open>None\<close>.
\<close>

record validated_data =
  vd_title :: "string option"
  vd_description :: "string option"
  vd_order :: "int option"
  vd_status :: "string option"
  vd_completed_at :: "datetime option option"
  vd_job :: "int option"
  vd_equipment_requirements :: "requirement list option"

text \<open>\<open>for attr, value in validated_data.items(): setattr(instance, attr, value)\<close>\<close>

definition set_attrs :: "validated_data \<Rightarrow> JobTask \<Rightarrow> JobTask" where
  "set_attrs vd t =
     t\<lparr>task_title := (case vd_title vd of None \<Rightarrow> task_title t | Some v \<Rightarrow> v),
       task_description := (case vd_description vd of None \<Rightarrow> task_description t | Some v \<Rightarrow> v),
       task_order := (case vd_order vd of None \<Rightarrow> task_order t | Some v \<Rightarrow> v),
       task_status := (case vd_status vd of None \<Rightarrow> task_status t | Some v \<Rightarrow> v),
       completed_at := (case vd_completed_at vd of None \<Rightarrow> completed_at t | Some v \<Rightarrow> v),
       task_job := (case vd_job vd of None \<Rightarrow> task_job t | Some v \<Rightarrow> v)\<rparr>"

text \<open>
  \<open>JobTaskEquipment.objects.create(job_task=..., equipment_id=..., quantity=..., notes=...)\<close>
  with the defaults of \<open>equipment_req.get\<close>. The insert raises \<open>OverflowError\<close> when the
  quantity or the equipment id is an integer the driver cannot bind (an id that a row of the
  catalog has can be bound), and \<open>IntegrityError\<close> when the equipment row does not exist
  (foreign key), the quantity is negative (the check constraint of a
  \<open>PositiveIntegerField\<close>) or the task already has a row for this equipment
  (\<open>unique_together = ["job_task", "equipment"]\<close>).
\<close>

definition JobTaskEquipment_create ::
  "datetime \<Rightarrow> int \<Rightarrow> requirement \<Rightarrow> database \<Rightarrow> error + database" where
  "JobTaskEquipment_create now tid r db =
     (let q = (case req_quantity r of None \<Rightarrow> 1 | Some q \<Rightarrow> q)
      in if \<not> int64 q then Inl OverflowError
         else case find (\<lambda>e. eq_id e = req_equipment_id r) (equipment_catalog db) of
           None \<Rightarrow> if int64 (req_equipment_id r) then Inl IntegrityError else Inl OverflowError
         | Some e \<Rightarrow>
            if q < 0 then Inl IntegrityError
            else if list_ex (\<lambda>x. job_task x = tid \<and> eq_id (equipment x) = req_equipment_id r)
                      (job_task_equipment db)
            then Inl IntegrityError
            else Inr (db\<lparr>job_task_equipment := job_task_equipment db @
                           [\<lparr>jte_id = jte_next_id db, job_task = tid, equipment = e,
                             quantity = q,
                             jte_notes = (case req_notes r of None \<Rightarrow> [] | Some n \<Rightarrow> n),
                             jte_created_at = now\<rparr>],
                         jte_next_id := jte_next_id db + 1\<rparr>))"

text \<open>The loop \<open>for equipment_req in equipment_requirements\<close>; an exception ends it.\<close>

fun create_requirements ::
  "datetime \<Rightarrow> int \<Rightarrow> requirement list \<Rightarrow> database \<Rightarrow> error + database" where
  "create_requirements now tid [] db = Inr db"
| "create_requirements now tid (r # rs) db =
     (case JobTaskEquipment_create now tid r db of
        Inl e \<Rightarrow> Inl e
      | Inr db' \<Rightarrow> create_requirements now tid rs db')"

text \<open>
  What \<open>instance.save()\<close> raises for a task row. The instance was loaded from the table, so a
  row that keeps the \<open>job\<close> and \<open>order\<close> it was loaded with breaks no constraint. One that
  changes them raises \<open>OverflowError\<close> when the driver cannot bind the new value, and
  \<open>IntegrityError\<close> when \<open>order\<close> is negative (\<open>PositiveIntegerField\<close>), the job does not
  exist (foreign key) or another task of the job has this order
  (\<open>unique_together = ["job", "order"]\<close>).
\<close>

definition JobTask_save_error :: "database \<Rightarrow> JobTask \<Rightarrow> JobTask \<Rightarrow> error option" where
  "JobTask_save_error db loaded row =
     (if task_job row = task_job loaded \<and> task_order row = task_order loaded then None
      else if \<not> int64 (task_order row) \<or> \<not> int64 (task_job row) then Some OverflowError
      else if task_order row < 0 \<or> get_job db (task_job row) = None
              \<or> list_ex (\<lambda>t. task_id t \<noteq> task_id row \<and> task_job t = task_job row
                              \<and> task_order t = task_order row) (job_tasks db)
      then Some IntegrityError
      else None)"

text \<open>
  \<open>JobTaskSerializer.update(instance, validated_data)\<close>. It returns the instance and the
  store after it, or the exception it raised.
\<close>

definition JobTaskSerializer_update ::
  "datetime \<Rightarrow> database \<Rightarrow> JobTask \<Rightarrow> validated_data \<Rightarrow> error + (JobTask \<times> database)" where
  "JobTaskSerializer_update now db instance vd =
     (let equipment_requirements = vd_equipment_requirements vd;
          instance1 = set_attrs vd instance;
          instance2 = (if task_status instance1 = ''COMPLETED'' \<and> completed_at instance1 = None
                       then instance1\<lparr>completed_at := Some now\<rparr>
                       else instance1);
          instance3 = instance2\<lparr>task_updated_at := now\<rparr>
      in case JobTask_save_error db instance instance2 of
           Some e \<Rightarrow> Inl e
         | None \<Rightarrow>
            (let db1 = save_task now instance2 db
             in case equipment_requirements of
                  None \<Rightarrow> Inr (instance3, db1)
                | Some reqs \<Rightarrow>
                   (let db2 = db1\<lparr>job_task_equipment :=
                                   filter (\<lambda>x. job_task x \<noteq> task_id instance3)
                                     (job_task_equipment db1)\<rparr>
                    in case create_requirements now (task_id instance3) reqs db2 of
                         Inl e \<Rightarrow> Inl e
                       | Inr db3 \<Rightarrow> Inr (instance3, db3))))"


text \<open>
  A request that replaces the equipment requirements of a task (the body holds only
  \<open>equipment_requirements\<close>): the serializer validates the list, and \<open>update\<close> runs on the
  validated data. Nothing is written when validation fails.
\<close>

definition update_equipment_requirements ::
  "int \<Rightarrow> datetime \<Rightarrow> database \<Rightarrow> JobTask \<Rightarrow> requirement list \<Rightarrow> error + (JobTask \<times> database)" where
  "update_equipment_requirements max_value now db instance reqs =
     (case validate_equipment_requirements max_value reqs of
        Inl e \<Rightarrow> Inl e
      | Inr reqs' \<Rightarrow>
         JobTaskSerializer_update now db instance
           \<lparr>vd_title = None, vd_description = None, vd_order = None, vd_status = None,
            vd_completed_at = None, vd_job = None, vd_equipment_requirements = Some reqs'\<rparr>)"

text \<open>
  What a ledger row records of a requirement, and what a requirement asks to be recorded for
  a task: task, equipment, quantity and notes, with the defaults of \<open>equipment_req.get\<close>.
\<close>

definition ledger_entry :: "JobTaskEquipment \<Rightarrow> int \<times> int \<times> int \<times> string" where
  "ledger_entry x = (job_task x, eq_id (equipment x), quantity x, jte_notes x)"

definition requested_entry :: "int \<Rightarrow> requirement \<Rightarrow> int \<times> int \<times> int \<times> string" where
  "requested_entry tid r =
     (tid, req_equipment_id r, (case req_quantity r of None \<Rightarrow> 1 | Some q \<Rightarrow> q),
      (case req_notes r of None \<Rightarrow> [] | Some n \<Rightarrow> n))"

section \<open>Technician dashboard (jobs/views.py)\<close>

text \<open>The dictionary built for one job in the loop of \<open>TechnicianDashboardView.get\<close>.\<close>

definition job_data_of :: "database \<Rightarrow> Job \<Rightarrow> job_data" where
  "job_data_of db job =
     (let active_tasks_qs =
            sort_key task_order
              (filter (\<lambda>t. task_status t \<in> set [''NOT_STARTED'', ''IN_PROGRESS''])
                 (jobtask_set db job))
      in \<lparr>jd_id = job_id job,
          jd_title = job_title job,
          jd_client_name = client_name job,
          jd_status = job_status job,
          jd_priority = priority job,
          jd_scheduled_date = scheduled_date job,
          jd_description = job_description job,
          tasks_count = length (jobtask_set db job),
          completed_tasks = length (filter (\<lambda>t. task_status t = ''COMPLETED'') (jobtask_set db job)),
          active_tasks =
            map (\<lambda>task.
                   \<lparr>td_id = task_id task,
                    td_title = task_title task,
                    td_description = task_description task,
                    td_order = task_order task,
                    td_status = task_status task,
                    required_equipment =
                      map (\<lambda>req. \<lparr>equipment_name = eq_name (equipment req),
                                   equipment_type = eq_type (equipment req),
                                   ed_quantity = quantity req,
                                   ed_notes = jte_notes req\<rparr>)
                        (jobtaskequipment_set db task)\<rparr>)
              active_tasks_qs\<rparr>)"

text \<open>
  The loop \<open>for job in jobs\<close>, with \<open>grouped_jobs\<close> as the accumulator. A \<open>datetime\<close> is
  always truthy, so \<open>not job.scheduled_date\<close> holds exactly for \<open>None\<close>.
\<close>

fun group_jobs :: "database \<Rightarrow> date \<Rightarrow> Job list \<Rightarrow> grouped_jobs \<Rightarrow> grouped_jobs" where
  "group_jobs db today [] grouped = grouped"
| "group_jobs db today (job # rest) grouped =
     (if job_status job = ''COMPLETED'' then group_jobs db today rest grouped
      else
        let jd = job_data_of db job
        in group_jobs db today rest
             (case scheduled_date job of
                None \<Rightarrow> grouped\<lparr>g_unscheduled := g_unscheduled grouped @ [jd]\<rparr>
              | Some d \<Rightarrow>
                 if date_of d = today then grouped\<lparr>g_today := g_today grouped @ [jd]\<rparr>
                 else if date_of d > today then grouped\<lparr>g_upcoming := g_upcoming grouped @ [jd]\<rparr>
                 else grouped\<lparr>g_overdue := g_overdue grouped @ [jd]\<rparr>))"

text \<open>
  \<open>Job.objects.filter(assigned_to=user)\<close>, in the default ordering of \<open>Job\<close>
  (\<open>ordering = ["-created_at"]\<close>).
\<close>

definition assigned_jobs :: "database \<Rightarrow> User \<Rightarrow> Job list" where
  "assigned_jobs db user =
     sort_key (\<lambda>j. - job_created_at j) (filter (\<lambda>j. assigned_to j = user_id user) (jobs db))"

text \<open>\<open>TechnicianDashboardView.get\<close>, with \<open>date.today()\<close> as the argument \<open>today\<close>.\<close>

definition TechnicianDashboardView_get :: "database \<Rightarrow> date \<Rightarrow> User \<Rightarrow> response" where
  "TechnicianDashboardView_get db today user =
     (if role user \<noteq> ''TECHNICIAN'' then Detail 403 ''This endpoint is only for technicians''
      else
        let js = assigned_jobs db user
        in if js = [] then Detail 200 ''No jobs assigned yet''
           else
             let grouped = group_jobs db today js
                             \<lparr>g_today = [], g_upcoming = [], g_overdue = [], g_unscheduled = []\<rparr>
             in Dashboard grouped
                  \<lparr>total_active_jobs =
                     length (g_today grouped @ g_upcoming grouped @ g_overdue grouped
                             @ g_unscheduled grouped),
                   today_count = length (g_today grouped),
                   overdue_count = length (g_overdue grouped)\<rparr>)"

section \<open>Example data\<close>

text \<open>
  Rows used to run the operations on concrete inputs: a job with a given primary key, status,
  schedule, overdue flag and assignee, and a task with a given primary key, parent job, order,
  status and completion time.
\<close>

definition example_job :: "int \<Rightarrow> string \<Rightarrow> datetime option \<Rightarrow> bool \<Rightarrow> int \<Rightarrow> Job" where
  "example_job i st sd od tech =
     \<lparr>job_id = i, job_title = ''Install router'', job_description = [], client_name = ''ACME'',
      scheduled_date = sd, job_status = st, priority = ''MEDIUM'', created_by = 1,
      assigned_to = tech, job_created_at = 0, job_updated_at = 0, overdue = od\<rparr>"

definition example_task :: "int \<Rightarrow> int \<Rightarrow> int \<Rightarrow> string \<Rightarrow> datetime option \<Rightarrow> JobTask" where
  "example_task i j ord st ca =
     \<lparr>task_id = i, task_title = ''Mount bracket'', task_description = [], task_order = ord,
      completed_at = ca, task_status = st, task_job = j, task_created_at = 0,
      task_updated_at = 0\<rparr>"

definition example_equipment :: "int \<Rightarrow> Equipment" where
  "example_equipment i =
     \<lparr>eq_id = i, eq_name = ''Drill'', eq_type = ''TOOL'', serial_number = ''SN'',
      is_active = True, eq_created_at = 0, eq_updated_at = 0\<rparr>"

definition example_db :: "Job list \<Rightarrow> JobTask list \<Rightarrow> database" where
  "example_db js ts =
     \<lparr>jobs = js, job_tasks = ts, equipment_catalog = [example_equipment 1, example_equipment 2],
      job_task_equipment = [], jte_next_id = 1\<rparr>"

definition example_vd :: "string option \<Rightarrow> requirement list option \<Rightarrow> validated_data" where
  "example_vd st reqs =
     \<lparr>vd_title = None, vd_description = None, vd_order = None, vd_status = st,
      vd_completed_at = None, vd_job = None, vd_equipment_requirements = reqs\<rparr>"

definition example_requirement :: "int \<Rightarrow> int option \<Rightarrow> requirement" where
  "example_requirement e q = \<lparr>req_equipment_id = e, req_quantity = q, req_notes = None\<rparr>"

section \<open>Properties of the overdue sweep\<close>

lemma sweep_job_cases:
  "(if not_overdue_jobs now (if overdue_jobs now j then j\<lparr>overdue := True\<rparr> else j)
    then (if overdue_jobs now j then j\<lparr>overdue := True\<rparr> else j)\<lparr>overdue := False\<rparr>
    else (if overdue_jobs now j then j\<lparr>overdue := True\<rparr> else j))
   = j\<lparr>overdue := scheduled_lt_and_active now j\<rparr>"
  by (cases "overdue j") (auto simp: overdue_jobs_def not_overdue_jobs_def scheduled_lt_and_active_def)

lemma check_overdue_jobs_rows:
  "fst (check_overdue_jobs now js) = map (\<lambda>j. j\<lparr>overdue := scheduled_lt_and_active now j\<rparr>) js"
  by (simp add: check_overdue_jobs_def mark_pass_def clear_pass_def update_overdue_def
      sweep_job_cases o_def)


lemma mark_pass_rows: "fst (mark_pass now js) = map (\<lambda>j. if overdue_jobs now j then j\<lparr>overdue := True\<rparr> else j) js"
  by (simp add: mark_pass_def update_overdue_def)

lemma clear_pass_rows: "fst (clear_pass now js) = map (\<lambda>j. if not_overdue_jobs now j then j\<lparr>overdue := False\<rparr> else j) js"
  by (simp add: clear_pass_def update_overdue_def)

lemma swept_job_settled:
  "\<not> overdue_jobs now (j\<lparr>overdue := scheduled_lt_and_active now j\<rparr>)"
  "\<not> not_overdue_jobs now (j\<lparr>overdue := scheduled_lt_and_active now j\<rparr>)"
  by (auto simp: overdue_jobs_def not_overdue_jobs_def scheduled_lt_and_active_def)

lemma passes_commute_job:
  "(if not_overdue_jobs now (if overdue_jobs now j then j\<lparr>overdue := True\<rparr> else j)
    then (if overdue_jobs now j then j\<lparr>overdue := True\<rparr> else j)\<lparr>overdue := False\<rparr>
    else (if overdue_jobs now j then j\<lparr>overdue := True\<rparr> else j))
   = (if overdue_jobs now (if not_overdue_jobs now j then j\<lparr>overdue := False\<rparr> else j)
    then (if not_overdue_jobs now j then j\<lparr>overdue := False\<rparr> else j)\<lparr>overdue := True\<rparr>
    else (if not_overdue_jobs now j then j\<lparr>overdue := False\<rparr> else j))"
  by (cases "overdue j") (auto simp: overdue_jobs_def not_overdue_jobs_def scheduled_lt_and_active_def)

lemma sel_after_other:
  "overdue_jobs now (if not_overdue_jobs now j then j\<lparr>overdue := False\<rparr> else j) = overdue_jobs now j"
  "not_overdue_jobs now (if overdue_jobs now j then j\<lparr>overdue := True\<rparr> else j) = not_overdue_jobs now j"
  by (auto simp: overdue_jobs_def not_overdue_jobs_def scheduled_lt_and_active_def)

text \<open>
  Claim C3. After one run of the sweep at time \<open>now\<close> the store holds the same jobs in the
  same places, changed at most in the overdue flag, and the flag of every job is true exactly
  when its \<open>scheduled_date\<close> is set and earlier than \<open>now\<close> and its status is PENDING or
  IN_PROGRESS. In particular a PENDING job scheduled in the past with the flag off has it on
  afterwards, and a COMPLETED job with the flag on has it off afterwards.
\<close>

theorem check_overdue_jobs_correct:
  "length (fst (check_overdue_jobs now js)) = length js \<and>
   (\<forall>i < length js.
      fst (check_overdue_jobs now js) ! i
        = (js ! i)\<lparr>overdue := overdue (fst (check_overdue_jobs now js) ! i)\<rparr> \<and>
      (overdue (fst (check_overdue_jobs now js) ! i) \<longleftrightarrow>
         (\<exists>d. scheduled_date (js ! i) = Some d \<and> d < now) \<and>
         (job_status (js ! i) = ''PENDING'' \<or> job_status (js ! i) = ''IN_PROGRESS''))) \<and>
   (\<forall>j \<in> set js. \<forall>d. scheduled_date j = Some d \<and> d < now \<and> job_status j = ''PENDING''
        \<and> \<not> overdue j \<longrightarrow> j\<lparr>overdue := True\<rparr> \<in> set (fst (check_overdue_jobs now js))) \<and>
   (\<forall>j \<in> set js. overdue j \<and> job_status j = ''COMPLETED''
        \<longrightarrow> j\<lparr>overdue := False\<rparr> \<in> set (fst (check_overdue_jobs now js)))"
proof -
  have rows: "fst (check_overdue_jobs now js)
      = map (\<lambda>j. j\<lparr>overdue := scheduled_lt_and_active now j\<rparr>) js"
    by (rule check_overdue_jobs_rows)
  have a: "length (fst (check_overdue_jobs now js)) = length js"
    by (simp add: rows)
  have b: "\<forall>i < length js.
      fst (check_overdue_jobs now js) ! i
        = (js ! i)\<lparr>overdue := overdue (fst (check_overdue_jobs now js) ! i)\<rparr> \<and>
      (overdue (fst (check_overdue_jobs now js) ! i) \<longleftrightarrow>
         (\<exists>d. scheduled_date (js ! i) = Some d \<and> d < now) \<and>
         (job_status (js ! i) = ''PENDING'' \<or> job_status (js ! i) = ''IN_PROGRESS''))"
    by (auto simp: rows scheduled_lt_and_active_def split: option.splits)
  have c: "\<forall>j \<in> set js. \<forall>d. scheduled_date j = Some d \<and> d < now \<and> job_status j = ''PENDING''
        \<and> \<not> overdue j \<longrightarrow> j\<lparr>overdue := True\<rparr> \<in> set (fst (check_overdue_jobs now js))"
  proof (intro ballI allI impI)
    fix j d assume j: "j \<in> set js"
      and h: "scheduled_date j = Some d \<and> d < now \<and> job_status j = ''PENDING'' \<and> \<not> overdue j"
    from h have "scheduled_lt_and_active now j" by (simp add: scheduled_lt_and_active_def)
    then have "j\<lparr>overdue := True\<rparr> = (\<lambda>j. j\<lparr>overdue := scheduled_lt_and_active now j\<rparr>) j" by simp
    from this j show "j\<lparr>overdue := True\<rparr> \<in> set (fst (check_overdue_jobs now js))"
      unfolding rows set_map by (rule image_eqI)
  qed
  have d: "\<forall>j \<in> set js. overdue j \<and> job_status j = ''COMPLETED''
        \<longrightarrow> j\<lparr>overdue := False\<rparr> \<in> set (fst (check_overdue_jobs now js))"
  proof (intro ballI impI)
    fix j assume j: "j \<in> set js" and h: "overdue j \<and> job_status j = ''COMPLETED''"
    from h have "\<not> scheduled_lt_and_active now j" by (simp add: scheduled_lt_and_active_def)
    then have "j\<lparr>overdue := False\<rparr> = (\<lambda>j. j\<lparr>overdue := scheduled_lt_and_active now j\<rparr>) j" by simp
    from this j show "j\<lparr>overdue := False\<rparr> \<in> set (fst (check_overdue_jobs now js))"
      unfolding rows set_map by (rule image_eqI)
  qed
  from a b c d show ?thesis by blast
qed

theorem check_overdue_jobs_correct_witness:
  "(example_job 1 ''PENDING'' (Some 100) False 7)\<lparr>overdue := True\<rparr>
     \<in> set (fst (check_overdue_jobs 200
          [example_job 1 ''PENDING'' (Some 100) False 7, example_job 2 ''COMPLETED'' (Some 100) True 7]))
   \<and> (example_job 2 ''COMPLETED'' (Some 100) True 7)\<lparr>overdue := False\<rparr>
     \<in> set (fst (check_overdue_jobs 200
          [example_job 1 ''PENDING'' (Some 100) False 7, example_job 2 ''COMPLETED'' (Some 100) True 7]))"
  using check_overdue_jobs_correct [of 200
      "[example_job 1 ''PENDING'' (Some 100) False 7, example_job 2 ''COMPLETED'' (Some 100) True 7]"]
  by (simp add: example_job_def)

text \<open>
  Claim C5. A second run of the sweep at the same time on the result of the first changes no
  job and reports zero jobs marked and zero jobs cleared. No job is selected by both queries,
  and a job selected by the first query is not selected by the second after the first pass
  has written it. Running the two passes in the other order gives the same jobs and the same
  two counts.
\<close>

theorem check_overdue_jobs_idempotent:
  "check_overdue_jobs now (fst (check_overdue_jobs now js))
     = (fst (check_overdue_jobs now js),
        \<lparr>marked_overdue = 0, cleared_overdue = 0, timestamp = now\<rparr>)
   \<and> \<not> (overdue_jobs now j \<and> not_overdue_jobs now j)
   \<and> \<not> (overdue_jobs now j \<and> not_overdue_jobs now (j\<lparr>overdue := True\<rparr>))
   \<and> fst (clear_pass now (fst (mark_pass now js))) = fst (mark_pass now (fst (clear_pass now js)))
   \<and> snd (mark_pass now (fst (clear_pass now js))) = snd (mark_pass now js)
   \<and> snd (clear_pass now (fst (mark_pass now js))) = snd (clear_pass now js)"
proof -
  let ?js1 = "fst (check_overdue_jobs now js)"
  have rows: "?js1 = map (\<lambda>j. j\<lparr>overdue := scheduled_lt_and_active now j\<rparr>) js"
    by (rule check_overdue_jobs_rows)
  have m0: "filter (overdue_jobs now) ?js1 = []"
    by (simp add: rows filter_empty_conv swept_job_settled)
  have c0: "filter (not_overdue_jobs now) ?js1 = []"
    by (simp add: rows filter_empty_conv swept_job_settled)
  have m1: "mark_pass now ?js1 = (?js1, 0)"
    unfolding mark_pass_def update_overdue_def m0
    by (simp add: rows swept_job_settled o_def)
  have c1: "clear_pass now ?js1 = (?js1, 0)"
    unfolding clear_pass_def update_overdue_def c0
    by (simp add: rows swept_job_settled o_def)
  have a: "check_overdue_jobs now ?js1
     = (?js1, \<lparr>marked_overdue = 0, cleared_overdue = 0, timestamp = now\<rparr>)"
    by (simp add: check_overdue_jobs_def [of now ?js1] m1 c1)
  have b: "\<not> (overdue_jobs now j \<and> not_overdue_jobs now j)"
    by (simp add: overdue_jobs_def not_overdue_jobs_def)
  have c: "\<not> (overdue_jobs now j \<and> not_overdue_jobs now (j\<lparr>overdue := True\<rparr>))"
    by (auto simp: overdue_jobs_def not_overdue_jobs_def scheduled_lt_and_active_def)
  have d: "fst (clear_pass now (fst (mark_pass now js))) = fst (mark_pass now (fst (clear_pass now js)))"
    by (simp add: mark_pass_rows clear_pass_rows o_def passes_commute_job)
  have e: "snd (mark_pass now (fst (clear_pass now js))) = snd (mark_pass now js)"
    by (simp add: clear_pass_rows mark_pass_def update_overdue_def filter_map o_def sel_after_other)
  have f: "snd (clear_pass now (fst (mark_pass now js))) = snd (clear_pass now js)"
    by (simp add: mark_pass_rows clear_pass_def update_overdue_def filter_map o_def sel_after_other)
  from a b c d e f show ?thesis by blast
qed


theorem check_overdue_jobs_idempotent_witness:
  "check_overdue_jobs 200 (fst (check_overdue_jobs 200
       [example_job 1 ''PENDING'' (Some 100) False 7, example_job 2 ''COMPLETED'' (Some 100) True 7]))
     = (fst (check_overdue_jobs 200
          [example_job 1 ''PENDING'' (Some 100) False 7, example_job 2 ''COMPLETED'' (Some 100) True 7]),
        \<lparr>marked_overdue = 0, cleared_overdue = 0, timestamp = 200\<rparr>)"
  using check_overdue_jobs_idempotent [of 200
      "[example_job 1 ''PENDING'' (Some 100) False 7, example_job 2 ''COMPLETED'' (Some 100) True 7]"]
  by blast

section \<open>Properties of the job status update\<close>

lemma find_job_id: "find (\<lambda>j. job_id j = jid) js = Some job \<Longrightarrow> job_id job = jid \<and> job \<in> set js"
  by (induction js) (auto split: if_splits)

lemma find_replaced_row:
  "find (\<lambda>j. job_id j = jid) js = Some job \<Longrightarrow> job_id row = jid \<Longrightarrow>
   find (\<lambda>j. job_id j = jid) (map (\<lambda>j. if job_id j = jid then row else j) js) = Some row"
  by (induction js) (auto split: if_splits)

lemma get_job_save_job:
  assumes "get_job db jid = Some job" and "job_id job1 = jid"
  shows "get_job (save_job now job1 db) jid = Some (job1\<lparr>job_updated_at := now\<rparr>)"
proof -
  from assms(1) have f: "find (\<lambda>j. job_id j = jid) (jobs db) = Some job"
    by (simp add: get_job_def)
  from find_job_id [OF f] have ex: "list_ex (\<lambda>j. job_id j = jid) (jobs db)"
    by (auto simp: list_ex_iff)
  from find_replaced_row [OF f, of "job1\<lparr>job_updated_at := now\<rparr>"] assms(2) ex
  show ?thesis by (simp add: save_job_def get_job_def Let_def)
qed

lemma incomplete_tasks_nonempty:
  "(sort_key task_order (filter (\<lambda>t. task_status t \<noteq> ''COMPLETED'') (jobtask_set db job)) \<noteq> [])
   = (\<exists>t \<in> set (job_tasks db). task_job t = job_id job \<and> task_status t \<noteq> ''COMPLETED'')"
proof -
  have "(sort_key task_order (filter (\<lambda>t. task_status t \<noteq> ''COMPLETED'') (jobtask_set db job)) \<noteq> [])
     = (set (sort_key task_order (filter (\<lambda>t. task_status t \<noteq> ''COMPLETED'') (jobtask_set db job))) \<noteq> {})"
    by (simp only: set_empty)
  also have "\<dots> = (\<exists>t \<in> set (job_tasks db). task_job t = job_id job \<and> task_status t \<noteq> ''COMPLETED'')"
    by (auto simp: jobtask_set_def)
  finally show ?thesis .
qed

text \<open>
  The completion gate of the technician's endpoint. When the caller is the technician the
  job is assigned to and asks for COMPLETED: if some task of the job is not COMPLETED, the
  answer is the 400 response whose list holds exactly the \<open>(id, title, status)\<close> of the
  job's tasks that are not COMPLETED, one entry per such task, and the store is unchanged;
  if the job has no task or all its tasks are COMPLETED, the answer is the 200 response and
  the stored job has status COMPLETED.
\<close>

lemma job_completion_gate:
  assumes tech: "role user = ''TECHNICIAN''"
    and found: "get_job db jid = Some job"
    and mine: "assigned_to job = user_id user"
  shows "((\<exists>t \<in> set (job_tasks db). task_job t = jid \<and> task_status t \<noteq> ''COMPLETED'') \<longrightarrow>
           (\<exists>listed.
              TechnicianJobUpdateView_patch now db user jid (Some ''COMPLETED'')
                = (IncompleteTasks ''Cannot complete job until all tasks are completed'' listed, db)
              \<and> set listed = (\<lambda>t. (task_id t, task_title t, task_status t)) `
                   {t \<in> set (job_tasks db). task_job t = jid \<and> task_status t \<noteq> ''COMPLETED''}
              \<and> length listed = length (filter (\<lambda>t. task_job t = jid \<and> task_status t \<noteq> ''COMPLETED'')
                   (job_tasks db))))
       \<and> ((\<forall>t \<in> set (job_tasks db). task_job t = jid \<longrightarrow> task_status t = ''COMPLETED'') \<longrightarrow>
            fst (TechnicianJobUpdateView_patch now db user jid (Some ''COMPLETED''))
              = JobUpdated (''Job status updated from '' @ job_status job @ '' to COMPLETED'')
                  (jid, job_title job, ''COMPLETED'', client_name job)
            \<and> get_job (snd (TechnicianJobUpdateView_patch now db user jid (Some ''COMPLETED''))) jid
              = Some (job\<lparr>job_status := ''COMPLETED'', job_updated_at := now\<rparr>))"
proof -
  let ?inc = "sort_key task_order (filter (\<lambda>t. task_status t \<noteq> ''COMPLETED'') (jobtask_set db job))"
  have jid: "job_id job = jid"
    using found find_job_id [of jid "jobs db" job] by (simp add: get_job_def)
  have ne: "(?inc \<noteq> []) = (\<exists>t \<in> set (job_tasks db). task_job t = jid \<and> task_status t \<noteq> ''COMPLETED'')"
    unfolding jid [symmetric] by (rule incomplete_tasks_nonempty)
  have set_inc: "set ?inc = {t \<in> set (job_tasks db). task_job t = jid \<and> task_status t \<noteq> ''COMPLETED''}"
    using jid by (auto simp: jobtask_set_def)
  have len_inc: "length ?inc = length (filter (\<lambda>t. task_job t = jid \<and> task_status t \<noteq> ''COMPLETED'')
                   (job_tasks db))"
    using jid by (simp add: jobtask_set_def)
  have rejected: "?inc \<noteq> [] \<Longrightarrow>
      TechnicianJobUpdateView_patch now db user jid (Some ''COMPLETED'')
        = (IncompleteTasks ''Cannot complete job until all tasks are completed''
             (map (\<lambda>t. (task_id t, task_title t, task_status t)) ?inc), db)"
    using tech found mine by (simp add: TechnicianJobUpdateView_patch_def Let_def)
  have accepted: "?inc = [] \<Longrightarrow>
      TechnicianJobUpdateView_patch now db user jid (Some ''COMPLETED'')
        = (JobUpdated (''Job status updated from '' @ job_status job @ '' to COMPLETED'')
             (jid, job_title job, ''COMPLETED'', client_name job),
           save_job now (job\<lparr>job_status := ''COMPLETED''\<rparr>) db)"
    using tech found mine jid by (simp add: TechnicianJobUpdateView_patch_def Let_def)
  have part1: "(\<exists>t \<in> set (job_tasks db). task_job t = jid \<and> task_status t \<noteq> ''COMPLETED'') \<longrightarrow>
           (\<exists>listed.
              TechnicianJobUpdateView_patch now db user jid (Some ''COMPLETED'')
                = (IncompleteTasks ''Cannot complete job until all tasks are completed'' listed, db)
              \<and> set listed = (\<lambda>t. (task_id t, task_title t, task_status t)) `
                   {t \<in> set (job_tasks db). task_job t = jid \<and> task_status t \<noteq> ''COMPLETED''}
              \<and> length listed = length (filter (\<lambda>t. task_job t = jid \<and> task_status t \<noteq> ''COMPLETED'')
                   (job_tasks db)))"
  proof
    assume "\<exists>t \<in> set (job_tasks db). task_job t = jid \<and> task_status t \<noteq> ''COMPLETED''"
    with ne have "?inc \<noteq> []" by simp
    from rejected [OF this] set_inc len_inc
    show "\<exists>listed.
              TechnicianJobUpdateView_patch now db user jid (Some ''COMPLETED'')
                = (IncompleteTasks ''Cannot complete job until all tasks are completed'' listed, db)
              \<and> set listed = (\<lambda>t. (task_id t, task_title t, task_status t)) `
                   {t \<in> set (job_tasks db). task_job t = jid \<and> task_status t \<noteq> ''COMPLETED''}
              \<and> length listed = length (filter (\<lambda>t. task_job t = jid \<and> task_status t \<noteq> ''COMPLETED'')
                   (job_tasks db))"
      by (intro exI [of _ "map (\<lambda>t. (task_id t, task_title t, task_status t)) ?inc"])
         (simp only: set_map length_map simp_thms)
  qed
  have part2: "(\<forall>t \<in> set (job_tasks db). task_job t = jid \<longrightarrow> task_status t = ''COMPLETED'') \<longrightarrow>
            fst (TechnicianJobUpdateView_patch now db user jid (Some ''COMPLETED''))
              = JobUpdated (''Job status updated from '' @ job_status job @ '' to COMPLETED'')
                  (jid, job_title job, ''COMPLETED'', client_name job)
            \<and> get_job (snd (TechnicianJobUpdateView_patch now db user jid (Some ''COMPLETED''))) jid
              = Some (job\<lparr>job_status := ''COMPLETED'', job_updated_at := now\<rparr>)"
  proof
    assume "\<forall>t \<in> set (job_tasks db). task_job t = jid \<longrightarrow> task_status t = ''COMPLETED''"
    then have "\<not> (\<exists>t \<in> set (job_tasks db). task_job t = jid \<and> task_status t \<noteq> ''COMPLETED'')"
      by blast
    with ne have "?inc = []" by simp
    from accepted [OF this] get_job_save_job [OF found, of "job\<lparr>job_status := ''COMPLETED''\<rparr>" now] jid
    show "fst (TechnicianJobUpdateView_patch now db user jid (Some ''COMPLETED''))
              = JobUpdated (''Job status updated from '' @ job_status job @ '' to COMPLETED'')
                  (jid, job_title job, ''COMPLETED'', client_name job)
            \<and> get_job (snd (TechnicianJobUpdateView_patch now db user jid (Some ''COMPLETED''))) jid
              = Some (job\<lparr>job_status := ''COMPLETED'', job_updated_at := now\<rparr>)"
      by simp
  qed
  from part1 part2 show ?thesis by (rule conjI)
qed

text \<open>
  The general job endpoint has no such gate: for a caller it admits (an administrator or a
  sales agent) and an existing job, a partial update to COMPLETED answers 200 and stores the
  job as COMPLETED, whatever the status of its tasks.
\<close>

lemma jobviewset_no_completion_gate:
  assumes perm: "IsAdminOrSalesAgent_has_permission user"
    and found: "get_job db jid = Some job"
  shows "fst (JobViewSet_partial_update_status now db user jid ''COMPLETED'')
           = JobSaved (job\<lparr>job_status := ''COMPLETED'', job_updated_at := now\<rparr>)
     \<and> get_job (snd (JobViewSet_partial_update_status now db user jid ''COMPLETED'')) jid
           = Some (job\<lparr>job_status := ''COMPLETED'', job_updated_at := now\<rparr>)"
proof -
  have jid: "job_id job = jid"
    using found find_job_id [of jid "jobs db" job] by (simp add: get_job_def)
  have run: "JobViewSet_partial_update_status now db user jid ''COMPLETED''
      = (JobSaved (job\<lparr>job_status := ''COMPLETED'', job_updated_at := now\<rparr>),
         save_job now (job\<lparr>job_status := ''COMPLETED''\<rparr>) db)"
    using perm found
    by (simp add: JobViewSet_partial_update_status_def JobSerializer_validate_status_def
        JobSerializer_update_status_def Let_def)
  from get_job_save_job [OF found, of "job\<lparr>job_status := ''COMPLETED''\<rparr>" now] jid
  show ?thesis unfolding run by simp
qed

text \<open>
  Claim C1 fails on \<open>JobViewSet\<close>: an administrator's \<open>PATCH /jobs/1/\<close> with
  \<open>{"status": "COMPLETED"}\<close> completes job 1 although its task 1 is NOT_STARTED, where the
  same request by the assigned technician on the status endpoint is rejected with the list
  of the incomplete task and changes nothing.
\<close>

theorem jobviewset_completes_job_with_incomplete_task:
  "JobViewSet_partial_update_status 500
       (example_db [example_job 1 ''IN_PROGRESS'' None False 7]
                   [example_task 1 1 1 ''NOT_STARTED'' None])
       (Some \<lparr>user_id = 2, role = ''ADMIN''\<rparr>) 1 ''COMPLETED''
     = (JobSaved ((example_job 1 ''IN_PROGRESS'' None False 7)
                    \<lparr>job_status := ''COMPLETED'', job_updated_at := 500\<rparr>),
        example_db [(example_job 1 ''IN_PROGRESS'' None False 7)
                      \<lparr>job_status := ''COMPLETED'', job_updated_at := 500\<rparr>]
                   [example_task 1 1 1 ''NOT_STARTED'' None])
   \<and> TechnicianJobUpdateView_patch 500
       (example_db [example_job 1 ''IN_PROGRESS'' None False 7]
                   [example_task 1 1 1 ''NOT_STARTED'' None])
       \<lparr>user_id = 7, role = ''TECHNICIAN''\<rparr> 1 (Some ''COMPLETED'')
     = (IncompleteTasks ''Cannot complete job until all tasks are completed''
          [(1, ''Mount bracket'', ''NOT_STARTED'')],
        example_db [example_job 1 ''IN_PROGRESS'' None False 7]
                   [example_task 1 1 1 ''NOT_STARTED'' None])"
  by (simp add: JobViewSet_partial_update_status_def JobSerializer_validate_status_def
      JobSerializer_update_status_def IsAdminOrSalesAgent_has_permission_def
      TechnicianJobUpdateView_patch_def jobtask_set_def save_job_def get_job_def Let_def
      example_db_def example_job_def example_task_def)




section \<open>Properties of the equipment ledger\<close>

lemma find_eq_id: "find (\<lambda>e. eq_id e = i) es = Some e \<Longrightarrow> eq_id e = i"
  by (induction es) (auto split: if_splits)

lemma find_in_catalog: "i \<in> eq_id ` set es \<Longrightarrow> \<exists>e. find (\<lambda>e. eq_id e = i) es = Some e"
  by (induction es) auto

lemma JobTaskEquipment_create_Inr:
  assumes "JobTaskEquipment_create now tid r db = Inr db'"
  shows "\<exists>e. job_task_equipment db' = job_task_equipment db @
            [\<lparr>jte_id = jte_next_id db, job_task = tid, equipment = e,
              quantity = (case req_quantity r of None \<Rightarrow> 1 | Some q \<Rightarrow> q),
              jte_notes = (case req_notes r of None \<Rightarrow> [] | Some n \<Rightarrow> n),
              jte_created_at = now\<rparr>]
          \<and> eq_id e = req_equipment_id r"
    and "jobs db' = jobs db" and "job_tasks db' = job_tasks db"
    and "equipment_catalog db' = equipment_catalog db"
    and "0 \<le> (case req_quantity r of None \<Rightarrow> 1 | Some q \<Rightarrow> q)"
  using assms
  by (auto simp: JobTaskEquipment_create_def Let_def dest: find_eq_id
           split: option.splits if_splits)

lemma JobTaskEquipment_create_succeeds:
  assumes "req_equipment_id r \<in> eq_id ` set (equipment_catalog db)"
    and "\<forall>x \<in> set (job_task_equipment db). job_task x = tid \<longrightarrow> eq_id (equipment x) \<noteq> req_equipment_id r"
    and "\<forall>q. req_quantity r = Some q \<longrightarrow> 0 \<le> q \<and> q \<le> 9223372036854775807"
  shows "\<exists>db'. JobTaskEquipment_create now tid r db = Inr db'"
proof -
  from find_in_catalog [OF assms(1)] obtain e
    where "find (\<lambda>e. eq_id e = req_equipment_id r) (equipment_catalog db) = Some e" ..
  moreover from assms(2)
  have "\<not> list_ex (\<lambda>x. job_task x = tid \<and> eq_id (equipment x) = req_equipment_id r)
          (job_task_equipment db)"
    by (auto simp: list_ex_iff)
  moreover from assms(3)
  have "int64 (case req_quantity r of None \<Rightarrow> 1 | Some q \<Rightarrow> q)"
    and "0 \<le> (case req_quantity r of None \<Rightarrow> 1 | Some q \<Rightarrow> q)"
    by (auto simp: int64_def split: option.splits)
  ultimately show ?thesis by (simp add: JobTaskEquipment_create_def Let_def)
qed

lemma create_requirements_Inr:
  "create_requirements now tid rs db = Inr db' \<Longrightarrow>
     (\<exists>new. job_task_equipment db' = job_task_equipment db @ new
        \<and> map ledger_entry new = map (requested_entry tid) rs)
     \<and> jobs db' = jobs db \<and> job_tasks db' = job_tasks db
     \<and> equipment_catalog db' = equipment_catalog db"
proof (induction rs arbitrary: db)
  case Nil
  then show ?case by simp
next
  case (Cons r rs)
  from Cons.prems obtain db1 where one: "JobTaskEquipment_create now tid r db = Inr db1"
    and more: "create_requirements now tid rs db1 = Inr db'"
    by (auto split: sum.splits)
  from JobTaskEquipment_create_Inr(1-4) [OF one] obtain x
    where x: "job_task_equipment db1 = job_task_equipment db @ [x]"
      and px: "ledger_entry x = requested_entry tid r"
      and same: "jobs db1 = jobs db" "job_tasks db1 = job_tasks db"
        "equipment_catalog db1 = equipment_catalog db"
    by (auto simp: ledger_entry_def requested_entry_def)
  from Cons.IH [OF more] obtain new
    where new: "job_task_equipment db' = job_task_equipment db1 @ new"
      and pnew: "map ledger_entry new = map (requested_entry tid) rs"
      and same': "jobs db' = jobs db1" "job_tasks db' = job_tasks db1"
        "equipment_catalog db' = equipment_catalog db1"
    by blast
  have "job_task_equipment db' = job_task_equipment db @ (x # new)"
    using x new by simp
  moreover have "map ledger_entry (x # new) = map (requested_entry tid) (r # rs)"
    using px pnew by simp
  ultimately show ?case using same same' by metis
qed

lemma create_requirements_succeeds:
  "distinct (map req_equipment_id rs) \<Longrightarrow>
   \<forall>r \<in> set rs. req_equipment_id r \<in> eq_id ` set (equipment_catalog db) \<Longrightarrow>
   \<forall>r \<in> set rs. \<forall>q. req_quantity r = Some q \<longrightarrow> 0 \<le> q \<and> q \<le> 9223372036854775807 \<Longrightarrow>
   \<forall>x \<in> set (job_task_equipment db). job_task x = tid \<longrightarrow>
      eq_id (equipment x) \<notin> req_equipment_id ` set rs \<Longrightarrow>
   \<exists>db'. create_requirements now tid rs db = Inr db'"
proof (induction rs arbitrary: db)
  case Nil
  then show ?case by simp
next
  case (Cons r rs)
  have "\<exists>db1. JobTaskEquipment_create now tid r db = Inr db1"
    using Cons.prems(2,3,4) by (intro JobTaskEquipment_create_succeeds) auto
  then obtain db1 where one: "JobTaskEquipment_create now tid r db = Inr db1" ..
  from JobTaskEquipment_create_Inr(1,4) [OF one] obtain e
    where led: "job_task_equipment db1 = job_task_equipment db @
            [\<lparr>jte_id = jte_next_id db, job_task = tid, equipment = e,
              quantity = (case req_quantity r of None \<Rightarrow> 1 | Some q \<Rightarrow> q),
              jte_notes = (case req_notes r of None \<Rightarrow> [] | Some n \<Rightarrow> n),
              jte_created_at = now\<rparr>]"
      and e: "eq_id e = req_equipment_id r"
      and cat: "equipment_catalog db1 = equipment_catalog db"
    by blast
  have d: "distinct (map req_equipment_id rs)" using Cons.prems(1) by simp
  have c: "\<forall>r \<in> set rs. req_equipment_id r \<in> eq_id ` set (equipment_catalog db1)"
    using Cons.prems(2) cat by simp
  have q: "\<forall>r \<in> set rs. \<forall>q. req_quantity r = Some q \<longrightarrow> 0 \<le> q \<and> q \<le> 9223372036854775807"
    using Cons.prems(3) by simp
  have n: "\<forall>x \<in> set (job_task_equipment db1). job_task x = tid \<longrightarrow>
      eq_id (equipment x) \<notin> req_equipment_id ` set rs"
    using Cons.prems(1,4) led e by auto
  from Cons.IH [OF d c q n] one show ?case by simp
qed

lemma task_id_set_attrs: "task_id (set_attrs vd t) = task_id t"
  by (simp add: set_attrs_def)


lemma requested_entry_task: "fst (requested_entry tid r) = tid"
  by (simp add: requested_entry_def)

lemma new_rows_of_task:
  assumes "map ledger_entry new = map (requested_entry tid) rs"
  shows "\<forall>x \<in> set new. job_task x = tid"
proof
  fix x assume "x \<in> set new"
  then have "ledger_entry x \<in> set (map ledger_entry new)" by simp
  with assms have "ledger_entry x \<in> requested_entry tid ` set rs" by simp
  then have "fst (ledger_entry x) = tid" by (auto simp: requested_entry_task)
  then show "job_task x = tid" by (simp add: ledger_entry_def)
qed

lemma JobTaskSerializer_update_Some:
  assumes some: "vd_equipment_requirements vd = Some reqs"
  shows "JobTaskSerializer_update now db inst vd =
     (let instance1 = set_attrs vd inst;
          instance2 = (if task_status instance1 = ''COMPLETED'' \<and> completed_at instance1 = None
                       then instance1\<lparr>completed_at := Some now\<rparr>
                       else instance1);
          instance3 = instance2\<lparr>task_updated_at := now\<rparr>
      in case JobTask_save_error db inst instance2 of
           Some e \<Rightarrow> Inl e
         | None \<Rightarrow>
            (case create_requirements now (task_id inst) reqs
                (db\<lparr>job_tasks := job_tasks (save_task now instance2 db),
                    job_task_equipment :=
                      filter (\<lambda>x. job_task x \<noteq> task_id inst) (job_task_equipment db)\<rparr>) of
               Inl e \<Rightarrow> Inl e
             | Inr db3 \<Rightarrow> Inr (instance3, db3)))"
  by (simp add: JobTaskSerializer_update_def Let_def some task_id_set_attrs save_task_def
      split: option.splits)

lemma JobTaskSerializer_update_Inr_Some:
  assumes run: "JobTaskSerializer_update now db inst vd = Inr (inst', db')"
    and some: "vd_equipment_requirements vd = Some reqs"
  shows "task_id inst' = task_id inst
           \<and> map ledger_entry (jobtaskequipment_set db' inst')
               = map (requested_entry (task_id inst)) reqs
           \<and> filter (\<lambda>x. job_task x \<noteq> task_id inst) (job_task_equipment db')
               = filter (\<lambda>x. job_task x \<noteq> task_id inst) (job_task_equipment db)
           \<and> equipment_catalog db' = equipment_catalog db"
proof -
  let ?tid = "task_id inst"
  let ?i1 = "set_attrs vd inst"
  let ?i2 = "if task_status ?i1 = ''COMPLETED'' \<and> completed_at ?i1 = None
             then ?i1\<lparr>completed_at := Some now\<rparr> else ?i1"
  let ?db2 = "db\<lparr>job_tasks := job_tasks (save_task now ?i2 db),
                job_task_equipment :=
                  filter (\<lambda>x. job_task x \<noteq> ?tid) (job_task_equipment db)\<rparr>"
  from run have ok: "create_requirements now ?tid reqs ?db2 = Inr db'"
    and i3: "inst' = ?i2\<lparr>task_updated_at := now\<rparr>"
    unfolding JobTaskSerializer_update_Some [OF some] Let_def
    by (auto split: sum.splits option.splits)
  have tid3: "task_id inst' = ?tid" unfolding i3 by (simp add: task_id_set_attrs)
  from create_requirements_Inr [OF ok] obtain new
    where new: "job_task_equipment db' = job_task_equipment ?db2 @ new"
      and pnew: "map ledger_entry new = map (requested_entry ?tid) reqs"
      and cat3: "equipment_catalog db' = equipment_catalog ?db2"
    by blast
  from new_rows_of_task [OF pnew] have mine: "\<forall>x \<in> set new. job_task x = ?tid" .
  have led3: "job_task_equipment db'
      = filter (\<lambda>x. job_task x \<noteq> ?tid) (job_task_equipment db) @ new"
    using new by simp
  have f1: "filter (\<lambda>x. job_task x = ?tid) (job_task_equipment db') = new"
    unfolding led3 using mine by (simp add: filter_id_conv)
  have f2: "filter (\<lambda>x. job_task x \<noteq> ?tid) (job_task_equipment db')
      = filter (\<lambda>x. job_task x \<noteq> ?tid) (job_task_equipment db)"
    unfolding led3 using mine by (simp add: filter_empty_conv)
  have "map ledger_entry (jobtaskequipment_set db' inst') = map (requested_entry ?tid) reqs"
    unfolding jobtaskequipment_set_def tid3 f1 by (rule pnew)
  moreover have "equipment_catalog db' = equipment_catalog db" using cat3 by simp
  ultimately show ?thesis using tid3 f2 by blast
qed

lemma JobTask_save_error_unchanged:
  "vd_order vd = None \<Longrightarrow> vd_job vd = None \<Longrightarrow>
   JobTask_save_error db inst
     (if task_status (set_attrs vd inst) = ''COMPLETED'' \<and> completed_at (set_attrs vd inst) = None
      then (set_attrs vd inst)\<lparr>completed_at := Some now\<rparr> else set_attrs vd inst) = None"
  by (simp add: JobTask_save_error_def set_attrs_def)

lemma JobTaskSerializer_update_succeeds:
  assumes dist: "distinct (map req_equipment_id reqs)"
    and cat: "\<forall>r \<in> set reqs. req_equipment_id r \<in> eq_id ` set (equipment_catalog db)"
    and qty: "\<forall>r \<in> set reqs. \<forall>q. req_quantity r = Some q \<longrightarrow> 0 \<le> q \<and> q \<le> 9223372036854775807"
    and some: "vd_equipment_requirements vd = Some reqs"
    and keep: "vd_order vd = None" "vd_job vd = None"
  shows "\<exists>inst' db'. JobTaskSerializer_update now db inst vd = Inr (inst', db')"
proof -
  let ?tid = "task_id inst"
  let ?i1 = "set_attrs vd inst"
  let ?i2 = "if task_status ?i1 = ''COMPLETED'' \<and> completed_at ?i1 = None
             then ?i1\<lparr>completed_at := Some now\<rparr> else ?i1"
  let ?db2 = "db\<lparr>job_tasks := job_tasks (save_task now ?i2 db),
                job_task_equipment :=
                  filter (\<lambda>x. job_task x \<noteq> ?tid) (job_task_equipment db)\<rparr>"
  have c: "\<forall>r \<in> set reqs. req_equipment_id r \<in> eq_id ` set (equipment_catalog ?db2)"
    using cat by simp
  have n: "\<forall>x \<in> set (job_task_equipment ?db2). job_task x = ?tid \<longrightarrow>
      eq_id (equipment x) \<notin> req_equipment_id ` set reqs"
    by simp
  from create_requirements_succeeds [OF dist c qty n, of now]
  obtain db3 where ok: "create_requirements now ?tid reqs ?db2 = Inr db3" ..
  have noerr: "JobTask_save_error db inst ?i2 = None"
    by (rule JobTask_save_error_unchanged [OF keep])
  show ?thesis
    unfolding JobTaskSerializer_update_Some [OF some] Let_def noerr using ok by simp
qed




lemma validate_item_Inr:
  "JobTaskEquipmentSerializer_validate mx r = Inr r' \<Longrightarrow>
     req_equipment_id r' = req_equipment_id r \<and> req_quantity r' = req_quantity r
     \<and> (\<forall>q. req_quantity r = Some q \<longrightarrow> 0 \<le> q \<and> q \<le> mx)"
  by (auto simp: JobTaskEquipmentSerializer_validate_def PositiveIntegerField_validate_def Let_def
           split: option.splits if_splits)

lemma validate_item_cases:
  "JobTaskEquipmentSerializer_validate mx r = Inl ValidationError
   \<or> (\<exists>r'. JobTaskEquipmentSerializer_validate mx r = Inr r')"
  by (auto simp: JobTaskEquipmentSerializer_validate_def PositiveIntegerField_validate_def Let_def
           split: option.splits)

lemma validate_item_ok:
  "\<forall>q. req_quantity r = Some q \<longrightarrow> 0 \<le> q \<and> q \<le> mx \<Longrightarrow>
     \<exists>r'. JobTaskEquipmentSerializer_validate mx r = Inr r'"
  by (auto simp: JobTaskEquipmentSerializer_validate_def PositiveIntegerField_validate_def Let_def
           split: option.splits)

lemma validate_list_cases:
  "validate_equipment_requirements mx rs = Inl ValidationError
   \<or> (\<exists>rs'. validate_equipment_requirements mx rs = Inr rs')"
proof (induction rs)
  case Nil
  show ?case by simp
next
  case (Cons r rs)
  from validate_item_cases [of mx r] Cons.IH show ?case by auto
qed

lemma validate_list_Inr:
  "validate_equipment_requirements mx rs = Inr rs' \<Longrightarrow>
     map req_equipment_id rs' = map req_equipment_id rs
     \<and> map req_quantity rs' = map req_quantity rs
     \<and> (\<forall>r \<in> set rs. \<forall>q. req_quantity r = Some q \<longrightarrow> 0 \<le> q \<and> q \<le> mx)"
proof (induction rs arbitrary: rs')
  case Nil
  then show ?case by simp
next
  case (Cons r rs)
  from Cons.prems obtain r1 rs1
    where a: "JobTaskEquipmentSerializer_validate mx r = Inr r1"
      and b: "validate_equipment_requirements mx rs = Inr rs1"
      and c: "rs' = r1 # rs1"
    by (auto split: sum.splits)
  from validate_item_Inr [OF a] Cons.IH [OF b] c show ?case by simp
qed

lemma validate_list_negative:
  assumes "\<exists>r \<in> set rs. \<exists>q. req_quantity r = Some q \<and> q < 0"
  shows "validate_equipment_requirements mx rs = Inl ValidationError"
proof (rule ccontr)
  assume "validate_equipment_requirements mx rs \<noteq> Inl ValidationError"
  with validate_list_cases [of mx rs] obtain rs'
    where "validate_equipment_requirements mx rs = Inr rs'" by blast
  from validate_list_Inr [OF this] assms show False by fastforce
qed

lemma validate_list_ok:
  "\<forall>r \<in> set rs. \<forall>q. req_quantity r = Some q \<longrightarrow> 0 \<le> q \<and> q \<le> mx \<Longrightarrow>
     \<exists>rs'. validate_equipment_requirements mx rs = Inr rs'"
proof (induction rs)
  case Nil
  show ?case by simp
next
  case (Cons r rs)
  from Cons.prems have "\<forall>q. req_quantity r = Some q \<longrightarrow> 0 \<le> q \<and> q \<le> mx" by simp
  from validate_item_ok [OF this] obtain r'
    where "JobTaskEquipmentSerializer_validate mx r = Inr r'" ..
  moreover from Cons obtain rs' where "validate_equipment_requirements mx rs = Inr rs'"
    by auto
  ultimately show ?case by simp
qed

lemma same_quantities:
  assumes "map req_quantity rs' = map req_quantity rs" and "r' \<in> set rs'"
  shows "\<exists>r \<in> set rs. req_quantity r = req_quantity r'"
proof -
  from assms(2) have "req_quantity r' \<in> set (map req_quantity rs')" by simp
  with assms(1) have "req_quantity r' \<in> req_quantity ` set rs" by simp
  then show ?thesis by auto
qed

lemma same_equipment:
  assumes "map req_equipment_id rs' = map req_equipment_id rs" and "r' \<in> set rs'"
  shows "\<exists>r \<in> set rs. req_equipment_id r = req_equipment_id r'"
proof -
  from assms(2) have "req_equipment_id r' \<in> set (map req_equipment_id rs')" by simp
  with assms(1) have "req_equipment_id r' \<in> req_equipment_id ` set rs" by simp
  then show ?thesis by auto
qed



text \<open>
  Claim C6, as amended. A list holding a requirement with a negative quantity is rejected by
  validation and nothing is written; every entry that a successful request leaves on the
  task has a quantity of at least 0; a request whose quantities are all 0 (for pairwise
  different, existing equipment) succeeds, and the entries are stored with quantity 0.
\<close>

theorem quantity_validation:
  "((\<exists>r \<in> set reqs. \<exists>q. req_quantity r = Some q \<and> q < 0) \<longrightarrow>
      update_equipment_requirements mx now db inst reqs = Inl ValidationError)
   \<and> (update_equipment_requirements mx now db inst reqs = Inr (inst', db') \<longrightarrow>
      (\<forall>x \<in> set (jobtaskequipment_set db' inst'). 0 \<le> quantity x))
   \<and> (0 \<le> mx \<and> distinct (map req_equipment_id reqs)
       \<and> (\<forall>r \<in> set reqs. req_equipment_id r \<in> eq_id ` set (equipment_catalog db))
       \<and> (\<forall>r \<in> set reqs. req_quantity r = Some 0) \<longrightarrow>
      (\<exists>inst2 db2. update_equipment_requirements mx now db inst reqs = Inr (inst2, db2)
         \<and> map quantity (jobtaskequipment_set db2 inst2) = map (\<lambda>r. 0) reqs))"
proof -
  let ?vd = "\<lambda>rs. \<lparr>vd_title = None, vd_description = None, vd_order = None, vd_status = None,
            vd_completed_at = None, vd_job = None, vd_equipment_requirements = Some rs\<rparr>"
  have qty: "\<And>x. quantity x = fst (snd (snd (ledger_entry x)))"
    by (simp add: ledger_entry_def)
  have a: "(\<exists>r \<in> set reqs. \<exists>q. req_quantity r = Some q \<and> q < 0) \<longrightarrow>
      update_equipment_requirements mx now db inst reqs = Inl ValidationError"
  proof
    assume "\<exists>r \<in> set reqs. \<exists>q. req_quantity r = Some q \<and> q < 0"
    from validate_list_negative [OF this, of mx]
    show "update_equipment_requirements mx now db inst reqs = Inl ValidationError"
      by (simp add: update_equipment_requirements_def)
  qed
  have b: "update_equipment_requirements mx now db inst reqs = Inr (inst', db') \<longrightarrow>
      (\<forall>x \<in> set (jobtaskequipment_set db' inst'). 0 \<le> quantity x)"
  proof (intro impI ballI)
    fix x
    assume run: "update_equipment_requirements mx now db inst reqs = Inr (inst', db')"
      and x: "x \<in> set (jobtaskequipment_set db' inst')"
    from run obtain rs where v: "validate_equipment_requirements mx reqs = Inr rs"
      and u: "JobTaskSerializer_update now db inst (?vd rs) = Inr (inst', db')"
      by (auto simp: update_equipment_requirements_def split: sum.splits)
    from validate_list_Inr [OF v] have same: "map req_quantity rs = map req_quantity reqs"
      and ok: "\<forall>r \<in> set reqs. \<forall>q. req_quantity r = Some q \<longrightarrow> 0 \<le> q \<and> q \<le> mx"
      by blast+
    have some: "vd_equipment_requirements (?vd rs) = Some rs" by simp
    from JobTaskSerializer_update_Inr_Some [OF u some]
    have m: "map ledger_entry (jobtaskequipment_set db' inst') = map (requested_entry (task_id inst)) rs"
      by blast
    from x have "ledger_entry x \<in> set (map ledger_entry (jobtaskequipment_set db' inst'))"
      by simp
    then obtain r' where r': "r' \<in> set rs" and e: "ledger_entry x = requested_entry (task_id inst) r'"
      unfolding m by auto
    from same_quantities [OF same r'] obtain r where r: "r \<in> set reqs"
      and rq: "req_quantity r = req_quantity r'" by blast
    from e have "quantity x = (case req_quantity r' of None \<Rightarrow> 1 | Some q \<Rightarrow> q)"
      by (simp add: qty requested_entry_def)
    with ok r rq show "0 \<le> quantity x" by (auto split: option.splits)
  qed
  have c: "0 \<le> mx \<and> distinct (map req_equipment_id reqs)
       \<and> (\<forall>r \<in> set reqs. req_equipment_id r \<in> eq_id ` set (equipment_catalog db))
       \<and> (\<forall>r \<in> set reqs. req_quantity r = Some 0) \<longrightarrow>
      (\<exists>inst2 db2. update_equipment_requirements mx now db inst reqs = Inr (inst2, db2)
         \<and> map quantity (jobtaskequipment_set db2 inst2) = map (\<lambda>r. 0) reqs)"
  proof
    assume h: "0 \<le> mx \<and> distinct (map req_equipment_id reqs)
       \<and> (\<forall>r \<in> set reqs. req_equipment_id r \<in> eq_id ` set (equipment_catalog db))
       \<and> (\<forall>r \<in> set reqs. req_quantity r = Some 0)"
    then have "\<forall>r \<in> set reqs. \<forall>q. req_quantity r = Some q \<longrightarrow> 0 \<le> q \<and> q \<le> mx"
      by auto
    from validate_list_ok [OF this] obtain rs
      where v: "validate_equipment_requirements mx reqs = Inr rs" ..
    from validate_list_Inr [OF v]
    have ids: "map req_equipment_id rs = map req_equipment_id reqs"
      and qs: "map req_quantity rs = map req_quantity reqs"
      by blast+
    from ids have len: "length rs = length reqs" by (rule map_eq_imp_length_eq)
    have some: "vd_equipment_requirements (?vd rs) = Some rs"
      and keep: "vd_order (?vd rs) = None" "vd_job (?vd rs) = None"
      by simp_all
    from h have dist: "distinct (map req_equipment_id rs)" unfolding ids by blast
    have cat: "\<forall>r \<in> set rs. req_equipment_id r \<in> eq_id ` set (equipment_catalog db)"
    proof
      fix r' assume "r' \<in> set rs"
      from same_equipment [OF ids this] h
      show "req_equipment_id r' \<in> eq_id ` set (equipment_catalog db)" by metis
    qed
    have zero: "\<forall>r \<in> set rs. req_quantity r = Some 0"
    proof
      fix r' assume "r' \<in> set rs"
      from same_quantities [OF qs this] h show "req_quantity r' = Some 0" by metis
    qed
    then have q64: "\<forall>r \<in> set rs. \<forall>q. req_quantity r = Some q \<longrightarrow> 0 \<le> q \<and> q \<le> 9223372036854775807"
      by simp
    from JobTaskSerializer_update_succeeds [OF dist cat q64 some keep, of now inst]
    obtain inst2 db2 where u: "JobTaskSerializer_update now db inst (?vd rs) = Inr (inst2, db2)"
      by blast
    from JobTaskSerializer_update_Inr_Some [OF u some]
    have m: "map ledger_entry (jobtaskequipment_set db2 inst2) = map (requested_entry (task_id inst)) rs"
      by blast
    have "map quantity (jobtaskequipment_set db2 inst2)
        = map (fst \<circ> snd \<circ> snd) (map ledger_entry (jobtaskequipment_set db2 inst2))"
      by (simp add: qty o_def)
    also have "\<dots> = map (\<lambda>r. 0) rs"
      unfolding m using zero by (simp add: requested_entry_def o_def)
    also have "\<dots> = map (\<lambda>r. 0) reqs"
      using len by (simp add: map_replicate_const)
    finally have "map quantity (jobtaskequipment_set db2 inst2) = map (\<lambda>r. 0) reqs" .
    moreover have "update_equipment_requirements mx now db inst reqs = Inr (inst2, db2)"
      using v u by (simp add: update_equipment_requirements_def)
    ultimately show "\<exists>inst2 db2. update_equipment_requirements mx now db inst reqs = Inr (inst2, db2)
         \<and> map quantity (jobtaskequipment_set db2 inst2) = map (\<lambda>r. 0) reqs"
      by blast
  qed
  from a b c show ?thesis by blast
qed

theorem quantity_validation_witness:
  "update_equipment_requirements 2147483647 500
       (example_db [example_job 1 ''PENDING'' None False 7]
                   [example_task 1 1 1 ''NOT_STARTED'' None])
       (example_task 1 1 1 ''NOT_STARTED'' None)
       [example_requirement 1 (Some (- 1))] = Inl ValidationError
   \<and> (\<exists>inst2 db2.
        update_equipment_requirements 2147483647 500
          (example_db [example_job 1 ''PENDING'' None False 7]
                      [example_task 1 1 1 ''NOT_STARTED'' None])
          (example_task 1 1 1 ''NOT_STARTED'' None)
          [example_requirement 1 (Some 0)] = Inr (inst2, db2)
        \<and> map quantity (jobtaskequipment_set db2 inst2) = [0])"
  using quantity_validation [of "[example_requirement 1 (Some (- 1))]" 2147483647 500
      "example_db [example_job 1 ''PENDING'' None False 7]
                  [example_task 1 1 1 ''NOT_STARTED'' None]"
      "example_task 1 1 1 ''NOT_STARTED'' None"]
    quantity_validation [of "[example_requirement 1 (Some 0)]" 2147483647 500
      "example_db [example_job 1 ''PENDING'' None False 7]
                  [example_task 1 1 1 ''NOT_STARTED'' None]"
      "example_task 1 1 1 ''NOT_STARTED'' None"]
  by (simp add: example_requirement_def example_db_def example_equipment_def)

text \<open>
  The claim C6 as stated fails at quantity 0: the request is not rejected, and the ledger
  then holds an entry of quantity 0.
\<close>

theorem zero_quantity_stored_counterexample:
  "\<not> isl (update_equipment_requirements 2147483647 500
       (example_db [example_job 1 ''PENDING'' None False 7]
                   [example_task 1 1 1 ''NOT_STARTED'' None])
       (example_task 1 1 1 ''NOT_STARTED'' None)
       [example_requirement 1 (Some 0)])
   \<and> map quantity (job_task_equipment (snd (projr (update_equipment_requirements 2147483647 500
       (example_db [example_job 1 ''PENDING'' None False 7]
                   [example_task 1 1 1 ''NOT_STARTED'' None])
       (example_task 1 1 1 ''NOT_STARTED'' None)
       [example_requirement 1 (Some 0)])))) = [0]"
  by (simp add: update_equipment_requirements_def JobTaskEquipmentSerializer_validate_def
      PositiveIntegerField_validate_def JobTaskSerializer_update_def Let_def set_attrs_def
      save_task_def JobTaskEquipment_create_def JobTask_save_error_def int64_def
      example_requirement_def example_db_def example_equipment_def example_task_def)

section \<open>Properties of the task status update\<close>

lemma find_task_id:
  "find (\<lambda>t. task_id t = tid) ts = Some task \<Longrightarrow> task_id task = tid \<and> task \<in> set ts"
  by (induction ts) (auto split: if_splits)

lemma find_replaced_task:
  "find (\<lambda>t. task_id t = tid) ts = Some task \<Longrightarrow> task_id row = tid \<Longrightarrow>
   find (\<lambda>t. task_id t = tid) (map (\<lambda>t. if task_id t = tid then row else t) ts) = Some row"
  by (induction ts) (auto split: if_splits)

lemma get_task_save_task:
  assumes "get_task db tid = Some task" and "task_id task1 = tid"
  shows "get_task (save_task now task1 db) tid = Some (task1\<lparr>task_updated_at := now\<rparr>)"
proof -
  from assms(1) have f: "find (\<lambda>t. task_id t = tid) (job_tasks db) = Some task"
    by (simp add: get_task_def)
  from find_task_id [OF f] have ex: "list_ex (\<lambda>t. task_id t = tid) (job_tasks db)"
    by (auto simp: list_ex_iff)
  from find_replaced_task [OF f, of "task1\<lparr>task_updated_at := now\<rparr>"] assms(2) ex
  show ?thesis by (simp add: save_task_def get_task_def Let_def)
qed

text \<open>
  On the technician's endpoint the completion time follows the status: after a successful
  update it is set exactly when the new status is COMPLETED, in the response and in the
  stored task.
\<close>

lemma technician_task_update_completed_at:
  assumes run: "TechnicianTaskUpdateView_patch now db user tid req
                  = (TaskUpdated msg (i, title, st, ca), db')"
  shows "(ca \<noteq> None) = (st = ''COMPLETED'')
     \<and> (\<exists>t. get_task db' tid = Some t \<and> task_status t = st \<and> completed_at t = ca)"
proof -
  from run obtain task new_status where found: "get_task db tid = Some task"
    and req: "req = Some new_status"
    by (auto simp: TechnicianTaskUpdateView_patch_def split: if_splits option.splits)
  have tid: "task_id task = tid"
    using found find_task_id [of tid "job_tasks db" task] by (simp add: get_task_def)
  let ?t1 = "task\<lparr>task_status := new_status\<rparr>"
  let ?t2 = "if new_status = ''COMPLETED'' \<and> completed_at ?t1 = None
             then ?t1\<lparr>completed_at := Some now\<rparr>
             else if new_status \<noteq> ''COMPLETED'' then ?t1\<lparr>completed_at := None\<rparr> else ?t1"
  from run found req have st: "st = task_status ?t2" and ca: "ca = completed_at ?t2"
    and db': "db' = save_task now ?t2 db"
    by (auto simp: TechnicianTaskUpdateView_patch_def Let_def split: if_splits option.splits)
  have id2: "task_id ?t2 = tid" using tid by simp
  have a: "(ca \<noteq> None) = (st = ''COMPLETED'')"
    unfolding st ca by auto
  from get_task_save_task [OF found id2, of now]
  have "get_task db' tid = Some (?t2\<lparr>task_updated_at := now\<rparr>)" unfolding db' .
  then have "\<exists>t. get_task db' tid = Some t \<and> task_status t = st \<and> completed_at t = ca"
    unfolding st ca by simp
  with a show ?thesis by (rule conjI)
qed

text \<open>
  Claim C2 fails on \<open>JobTaskSerializer.update\<close>, which stamps \<open>completed_at\<close> on entering
  COMPLETED but has no branch that clears it: a COMPLETED task with completion time 400,
  updated to IN_PROGRESS, keeps the completion time, in the returned instance and in the
  stored row.
\<close>

theorem serializer_update_keeps_completed_at:
  "\<not> isl (JobTaskSerializer_update 500
       (example_db [example_job 1 ''IN_PROGRESS'' None False 7]
                   [example_task 1 1 1 ''COMPLETED'' (Some 400)])
       (example_task 1 1 1 ''COMPLETED'' (Some 400))
       (example_vd (Some ''IN_PROGRESS'') None))
   \<and> task_status (fst (projr (JobTaskSerializer_update 500
       (example_db [example_job 1 ''IN_PROGRESS'' None False 7]
                   [example_task 1 1 1 ''COMPLETED'' (Some 400)])
       (example_task 1 1 1 ''COMPLETED'' (Some 400))
       (example_vd (Some ''IN_PROGRESS'') None)))) = ''IN_PROGRESS''
   \<and> completed_at (fst (projr (JobTaskSerializer_update 500
       (example_db [example_job 1 ''IN_PROGRESS'' None False 7]
                   [example_task 1 1 1 ''COMPLETED'' (Some 400)])
       (example_task 1 1 1 ''COMPLETED'' (Some 400))
       (example_vd (Some ''IN_PROGRESS'') None)))) = Some 400
   \<and> get_task (snd (projr (JobTaskSerializer_update 500
       (example_db [example_job 1 ''IN_PROGRESS'' None False 7]
                   [example_task 1 1 1 ''COMPLETED'' (Some 400)])
       (example_task 1 1 1 ''COMPLETED'' (Some 400))
       (example_vd (Some ''IN_PROGRESS'') None)))) 1
     = Some ((example_task 1 1 1 ''COMPLETED'' (Some 400))
               \<lparr>task_status := ''IN_PROGRESS'', task_updated_at := 500\<rparr>)"
  by (simp add: JobTaskSerializer_update_def Let_def set_attrs_def save_task_def get_task_def
      JobTask_save_error_def example_vd_def example_db_def example_task_def)

section \<open>Properties of the technician dashboard\<close>

lemma group_jobs_today:
  "g_today (group_jobs db today js g) = g_today g @ map (job_data_of db)
     (filter (\<lambda>j. job_status j \<noteq> ''COMPLETED'' \<and>
        (case scheduled_date j of None \<Rightarrow> False | Some d \<Rightarrow> date_of d = today)) js)"
  by (induction js arbitrary: g) (simp_all add: Let_def split: option.splits)

lemma group_jobs_upcoming:
  "g_upcoming (group_jobs db today js g) = g_upcoming g @ map (job_data_of db)
     (filter (\<lambda>j. job_status j \<noteq> ''COMPLETED'' \<and>
        (case scheduled_date j of None \<Rightarrow> False | Some d \<Rightarrow> today < date_of d)) js)"
  by (induction js arbitrary: g) (simp_all add: Let_def split: option.splits)

lemma group_jobs_overdue:
  "g_overdue (group_jobs db today js g) = g_overdue g @ map (job_data_of db)
     (filter (\<lambda>j. job_status j \<noteq> ''COMPLETED'' \<and>
        (case scheduled_date j of None \<Rightarrow> False | Some d \<Rightarrow> date_of d < today)) js)"
  by (induction js arbitrary: g) (simp_all add: Let_def split: option.splits)

lemma group_jobs_unscheduled:
  "g_unscheduled (group_jobs db today js g) = g_unscheduled g @ map (job_data_of db)
     (filter (\<lambda>j. job_status j \<noteq> ''COMPLETED'' \<and> scheduled_date j = None) js)"
  by (induction js arbitrary: g) (simp_all add: Let_def split: option.splits)

lemma jd_id_job_data_of: "jd_id (job_data_of db j) = job_id j"
  by (simp add: job_data_of_def Let_def)

lemma jd_status_job_data_of: "jd_status (job_data_of db j) = job_status j"
  by (simp add: job_data_of_def Let_def)

lemma filter_by_distinct_id:
  "distinct (map job_id js) \<Longrightarrow> j \<in> set js \<Longrightarrow>
     filter (\<lambda>y. job_id y = job_id j \<and> Q y) js = (if Q j then [j] else [])"
proof (induction js)
  case Nil
  then show ?case by simp
next
  case (Cons a js)
  show ?case
  proof (cases "a = j")
    case True
    with Cons.prems(1) have "job_id j \<notin> job_id ` set js" by simp
    then have "\<forall>y \<in> set js. job_id y \<noteq> job_id j" by (metis imageI)
    then have "filter (\<lambda>y. job_id y = job_id j \<and> Q y) js = []"
      by (simp add: filter_empty_conv)
    with True show ?thesis by simp
  next
    case False
    with Cons.prems have j: "j \<in> set js" and d: "distinct (map job_id js)"
      and "job_id a \<noteq> job_id j"
      by auto
    with Cons.IH [OF d j] show ?thesis by simp
  qed
qed

lemma occurrences_in_bucket:
  assumes dist: "distinct (map job_id (jobs db))" and jin: "j \<in> set (jobs db)"
    and mine: "assigned_to j = user_id user"
  shows "length (filter (\<lambda>x. jd_id x = job_id j)
           (map (job_data_of db) (filter P (assigned_jobs db user))))
         = (if P j then 1 else 0)"
proof -
  have "filter (\<lambda>x. jd_id x = job_id j) (map (job_data_of db) (filter P (assigned_jobs db user)))
      = map (job_data_of db)
          (filter (\<lambda>y. job_id y = job_id j) (filter P (assigned_jobs db user)))"
    by (simp add: filter_map o_def jd_id_job_data_of)
  also have "filter (\<lambda>y. job_id y = job_id j) (filter P (assigned_jobs db user))
      = sort_key (\<lambda>j. - job_created_at j)
          (filter (\<lambda>y. job_id y = job_id j \<and> (P y \<and> assigned_to y = user_id user)) (jobs db))"
    by (simp add: assigned_jobs_def filter_sort conj_ac)
  also have "filter (\<lambda>y. job_id y = job_id j \<and> (P y \<and> assigned_to y = user_id user)) (jobs db)
      = (if P j \<and> assigned_to j = user_id user then [j] else [])"
    by (rule filter_by_distinct_id [OF dist jin])
  finally show ?thesis using mine by simp
qed

lemma in_bucket:
  assumes jin: "j \<in> set (jobs db)" and mine: "assigned_to j = user_id user" and "P j"
  shows "job_data_of db j \<in> set (map (job_data_of db) (filter P (assigned_jobs db user)))"
  using assms by (simp add: assigned_jobs_def)

lemma assigned_jobs_nonempty:
  "(assigned_jobs db user \<noteq> []) = (\<exists>j \<in> set (jobs db). assigned_to j = user_id user)"
proof -
  have "(assigned_jobs db user \<noteq> []) = (set (assigned_jobs db user) \<noteq> {})"
    by (simp only: set_empty)
  also have "\<dots> = (\<exists>j \<in> set (jobs db). assigned_to j = user_id user)"
    by (auto simp: assigned_jobs_def)
  finally show ?thesis .
qed

lemma TechnicianDashboardView_get_buckets:
  assumes tech: "role user = ''TECHNICIAN''"
    and some: "\<exists>j \<in> set (jobs db). assigned_to j = user_id user"
  shows "\<exists>g. TechnicianDashboardView_get db today user
      = Dashboard g \<lparr>total_active_jobs = length (g_today g) + length (g_upcoming g)
                         + length (g_overdue g) + length (g_unscheduled g),
                      today_count = length (g_today g),
                      overdue_count = length (g_overdue g)\<rparr>
    \<and> g_today g = map (job_data_of db)
         (filter (\<lambda>j. job_status j \<noteq> ''COMPLETED'' \<and>
            (case scheduled_date j of None \<Rightarrow> False | Some d \<Rightarrow> date_of d = today))
            (assigned_jobs db user))
    \<and> g_upcoming g = map (job_data_of db)
         (filter (\<lambda>j. job_status j \<noteq> ''COMPLETED'' \<and>
            (case scheduled_date j of None \<Rightarrow> False | Some d \<Rightarrow> today < date_of d))
            (assigned_jobs db user))
    \<and> g_overdue g = map (job_data_of db)
         (filter (\<lambda>j. job_status j \<noteq> ''COMPLETED'' \<and>
            (case scheduled_date j of None \<Rightarrow> False | Some d \<Rightarrow> date_of d < today))
            (assigned_jobs db user))
    \<and> g_unscheduled g = map (job_data_of db)
         (filter (\<lambda>j. job_status j \<noteq> ''COMPLETED'' \<and> scheduled_date j = None)
            (assigned_jobs db user))"
proof -
  let ?g = "group_jobs db today (assigned_jobs db user)
              \<lparr>g_today = [], g_upcoming = [], g_overdue = [], g_unscheduled = []\<rparr>"
  from some have ne: "assigned_jobs db user \<noteq> []"
    by (simp only: assigned_jobs_nonempty)
  have "TechnicianDashboardView_get db today user
      = Dashboard ?g \<lparr>total_active_jobs = length (g_today ?g) + length (g_upcoming ?g)
                         + length (g_overdue ?g) + length (g_unscheduled ?g),
                      today_count = length (g_today ?g),
                      overdue_count = length (g_overdue ?g)\<rparr>"
    using tech ne by (simp add: TechnicianDashboardView_get_def Let_def)
  moreover have "g_today ?g = map (job_data_of db)
         (filter (\<lambda>j. job_status j \<noteq> ''COMPLETED'' \<and>
            (case scheduled_date j of None \<Rightarrow> False | Some d \<Rightarrow> date_of d = today))
            (assigned_jobs db user))"
    by (simp add: group_jobs_today)
  moreover have "g_upcoming ?g = map (job_data_of db)
         (filter (\<lambda>j. job_status j \<noteq> ''COMPLETED'' \<and>
            (case scheduled_date j of None \<Rightarrow> False | Some d \<Rightarrow> today < date_of d))
            (assigned_jobs db user))"
    by (simp add: group_jobs_upcoming)
  moreover have "g_overdue ?g = map (job_data_of db)
         (filter (\<lambda>j. job_status j \<noteq> ''COMPLETED'' \<and>
            (case scheduled_date j of None \<Rightarrow> False | Some d \<Rightarrow> date_of d < today))
            (assigned_jobs db user))"
    by (simp add: group_jobs_overdue)
  moreover have "g_unscheduled ?g = map (job_data_of db)
         (filter (\<lambda>j. job_status j \<noteq> ''COMPLETED'' \<and> scheduled_date j = None)
            (assigned_jobs db user))"
    by (simp add: group_jobs_unscheduled)
  ultimately show ?thesis by blast
qed

lemma insort_key_map:
  "insort_key f (h x) (map h ys) = map h (insort_key (\<lambda>y. f (h y)) x ys)"
  by (induction ys) simp_all

lemma sort_key_map:
  "sort_key f (map h xs) = map h (sort_key (\<lambda>y. f (h y)) xs)"
  by (induction xs) (simp_all add: insort_key_map)

lemma job_data_of_overdue_flag:
  "job_data_of (db\<lparr>jobs := js\<rparr>) (j\<lparr>overdue := b\<rparr>) = job_data_of db j"
  by (simp add: job_data_of_def jobtask_set_def jobtaskequipment_set_def)

lemma group_jobs_overdue_flag:
  "group_jobs (db\<lparr>jobs := js'\<rparr>) today (map (\<lambda>x. x\<lparr>overdue := f x\<rparr>) js) g
     = group_jobs db today js g"
  by (induction js arbitrary: g) (simp_all add: job_data_of_overdue_flag Let_def)

lemma assigned_jobs_overdue_flag:
  "assigned_jobs (db\<lparr>jobs := map (\<lambda>x. x\<lparr>overdue := f x\<rparr>) (jobs db)\<rparr>) user
     = map (\<lambda>x. x\<lparr>overdue := f x\<rparr>) (assigned_jobs db user)"
  by (simp add: assigned_jobs_def filter_map o_def sort_key_map)

lemma dashboard_ignores_overdue_flag:
  "TechnicianDashboardView_get (db\<lparr>jobs := map (\<lambda>x. x\<lparr>overdue := f x\<rparr>) (jobs db)\<rparr>) today user
     = TechnicianDashboardView_get db today user"
  by (simp add: TechnicianDashboardView_get_def assigned_jobs_overdue_flag
      group_jobs_overdue_flag Let_def)

text \<open>
  Claim C8. For a technician and a job assigned to them (primary keys being unique), the
  dashboard is returned, and the job occurs, by its id, in the four buckets today, upcoming,
  overdue, unscheduled as follows: nowhere when it is COMPLETED; otherwise exactly once,
  in unscheduled when \<open>scheduled_date\<close> is null, in today when its date is the current
  date, in upcoming when its date is later, in overdue when its date is earlier, and its
  \<open>job_data\<close> is in the buckets. Rewriting the persisted overdue flags of the jobs in any
  way leaves the response unchanged.
\<close>

theorem dashboard_bucketing:
  assumes tech: "role user = ''TECHNICIAN''"
    and jin: "j \<in> set (jobs db)"
    and mine: "assigned_to j = user_id user"
    and dist: "distinct (map job_id (jobs db))"
  shows "(\<exists>g s. TechnicianDashboardView_get db today user = Dashboard g s
           \<and> map (\<lambda>bucket. length (filter (\<lambda>x. jd_id x = job_id j) bucket))
                 [g_today g, g_upcoming g, g_overdue g, g_unscheduled g]
               = (if job_status j = ''COMPLETED'' then [0, 0, 0, 0]
                  else case scheduled_date j of
                         None \<Rightarrow> [0, 0, 0, 1]
                       | Some d \<Rightarrow>
                          if date_of d = today then [1, 0, 0, 0]
                          else if today < date_of d then [0, 1, 0, 0]
                          else [0, 0, 1, 0])
           \<and> (job_status j \<noteq> ''COMPLETED'' \<longrightarrow>
                job_data_of db j \<in> set (g_today g @ g_upcoming g @ g_overdue g @ g_unscheduled g)))
       \<and> TechnicianDashboardView_get
            (db\<lparr>jobs := map (\<lambda>x. x\<lparr>overdue := f x\<rparr>) (jobs db)\<rparr>) today user
          = TechnicianDashboardView_get db today user"
proof -
  from jin mine have some: "\<exists>j \<in> set (jobs db). assigned_to j = user_id user" by blast
  from TechnicianDashboardView_get_buckets [OF tech some, of today]
  obtain g s where run: "TechnicianDashboardView_get db today user = Dashboard g s"
    and t: "g_today g = map (job_data_of db)
         (filter (\<lambda>j. job_status j \<noteq> ''COMPLETED'' \<and>
            (case scheduled_date j of None \<Rightarrow> False | Some d \<Rightarrow> date_of d = today))
            (assigned_jobs db user))"
    and u: "g_upcoming g = map (job_data_of db)
         (filter (\<lambda>j. job_status j \<noteq> ''COMPLETED'' \<and>
            (case scheduled_date j of None \<Rightarrow> False | Some d \<Rightarrow> today < date_of d))
            (assigned_jobs db user))"
    and od: "g_overdue g = map (job_data_of db)
         (filter (\<lambda>j. job_status j \<noteq> ''COMPLETED'' \<and>
            (case scheduled_date j of None \<Rightarrow> False | Some d \<Rightarrow> date_of d < today))
            (assigned_jobs db user))"
    and un: "g_unscheduled g = map (job_data_of db)
         (filter (\<lambda>j. job_status j \<noteq> ''COMPLETED'' \<and> scheduled_date j = None)
            (assigned_jobs db user))"
    by blast
  note occ = occurrences_in_bucket [OF dist jin mine]
  have counts: "map (\<lambda>bucket. length (filter (\<lambda>x. jd_id x = job_id j) bucket))
                 [g_today g, g_upcoming g, g_overdue g, g_unscheduled g]
               = (if job_status j = ''COMPLETED'' then [0, 0, 0, 0]
                  else case scheduled_date j of
                         None \<Rightarrow> [0, 0, 0, 1]
                       | Some d \<Rightarrow>
                          if date_of d = today then [1, 0, 0, 0]
                          else if today < date_of d then [0, 1, 0, 0]
                          else [0, 0, 1, 0])"
  proof -
    have c1: "length (filter (\<lambda>x. jd_id x = job_id j) (g_today g))
        = (if job_status j \<noteq> ''COMPLETED'' \<and>
              (case scheduled_date j of None \<Rightarrow> False | Some d \<Rightarrow> date_of d = today)
           then 1 else 0)"
      unfolding t by (rule occ)
    have c2: "length (filter (\<lambda>x. jd_id x = job_id j) (g_upcoming g))
        = (if job_status j \<noteq> ''COMPLETED'' \<and>
              (case scheduled_date j of None \<Rightarrow> False | Some d \<Rightarrow> today < date_of d)
           then 1 else 0)"
      unfolding u by (rule occ)
    have c3: "length (filter (\<lambda>x. jd_id x = job_id j) (g_overdue g))
        = (if job_status j \<noteq> ''COMPLETED'' \<and>
              (case scheduled_date j of None \<Rightarrow> False | Some d \<Rightarrow> date_of d < today)
           then 1 else 0)"
      unfolding od by (rule occ)
    have c4: "length (filter (\<lambda>x. jd_id x = job_id j) (g_unscheduled g))
        = (if job_status j \<noteq> ''COMPLETED'' \<and> scheduled_date j = None then 1 else 0)"
      unfolding un by (rule occ)
    show ?thesis by (simp add: c1 c2 c3 c4 split: option.splits)
  qed
  have member: "job_status j \<noteq> ''COMPLETED'' \<longrightarrow>
      job_data_of db j \<in> set (g_today g @ g_upcoming g @ g_overdue g @ g_unscheduled g)"
  proof
    assume active: "job_status j \<noteq> ''COMPLETED''"
    show "job_data_of db j \<in> set (g_today g @ g_upcoming g @ g_overdue g @ g_unscheduled g)"
    proof (cases "scheduled_date j")
      case None
      with active have "job_data_of db j \<in> set (g_unscheduled g)"
        unfolding un by (intro in_bucket [OF jin mine]) simp
      then show ?thesis by simp
    next
      case (Some d)
      consider "date_of d = today" | "today < date_of d" | "date_of d < today" by linarith
      then show ?thesis
      proof cases
        case 1
        with active Some have "job_data_of db j \<in> set (g_today g)"
          unfolding t by (intro in_bucket [OF jin mine]) simp
        then show ?thesis by simp
      next
        case 2
        with active Some have "job_data_of db j \<in> set (g_upcoming g)"
          unfolding u by (intro in_bucket [OF jin mine]) simp
        then show ?thesis by simp
      next
        case 3
        with active Some have "job_data_of db j \<in> set (g_overdue g)"
          unfolding od by (intro in_bucket [OF jin mine]) simp
        then show ?thesis by simp
      qed
    qed
  qed
  from run counts member dashboard_ignores_overdue_flag [where db = db and f = f and today = today and user = user]
  show ?thesis by blast
qed

theorem dashboard_bucketing_witness:
  "\<exists>g s. TechnicianDashboardView_get
       (example_db [example_job 1 ''PENDING'' (Some 8640000000005) True 7,
                    example_job 2 ''COMPLETED'' None False 7] [])
       100 \<lparr>user_id = 7, role = ''TECHNICIAN''\<rparr> = Dashboard g s
     \<and> map (\<lambda>bucket. length (filter (\<lambda>x. jd_id x = 1) bucket))
           [g_today g, g_upcoming g, g_overdue g, g_unscheduled g] = [1, 0, 0, 0]"
  using dashboard_bucketing [of "\<lparr>user_id = 7, role = ''TECHNICIAN''\<rparr>"
      "example_job 1 ''PENDING'' (Some 8640000000005) True 7"
      "example_db [example_job 1 ''PENDING'' (Some 8640000000005) True 7,
                   example_job 2 ''COMPLETED'' None False 7] []" 100]
  by (simp add: example_db_def example_job_def date_of_def) blast

text \<open>
  Claim C9, as amended. For a technician with at least one assigned job, of any status, the
  response holds the four buckets and a summary with the overall count (the sum of the four
  bucket lengths), the count of today and the count of overdue; it has no count for upcoming
  or unscheduled. For a technician with no assigned job the response is the message
  "No jobs assigned yet" with status 200, without buckets or counts.
\<close>

theorem dashboard_response_shape:
  "role user = ''TECHNICIAN'' \<longrightarrow>
     (if \<exists>j \<in> set (jobs db). assigned_to j = user_id user
      then \<exists>g. TechnicianDashboardView_get db today user
             = Dashboard g \<lparr>total_active_jobs = length (g_today g) + length (g_upcoming g)
                               + length (g_overdue g) + length (g_unscheduled g),
                             today_count = length (g_today g),
                             overdue_count = length (g_overdue g)\<rparr>
      else TechnicianDashboardView_get db today user = Detail 200 ''No jobs assigned yet'')"
proof
  assume tech: "role user = ''TECHNICIAN''"
  show "if \<exists>j \<in> set (jobs db). assigned_to j = user_id user
      then \<exists>g. TechnicianDashboardView_get db today user
             = Dashboard g \<lparr>total_active_jobs = length (g_today g) + length (g_upcoming g)
                               + length (g_overdue g) + length (g_unscheduled g),
                             today_count = length (g_today g),
                             overdue_count = length (g_overdue g)\<rparr>
      else TechnicianDashboardView_get db today user = Detail 200 ''No jobs assigned yet''"
  proof (cases "\<exists>j \<in> set (jobs db). assigned_to j = user_id user")
    case True
    from TechnicianDashboardView_get_buckets [OF tech True, of today] True
    show ?thesis by (simp only: if_True) blast
  next
    case False
    then have "assigned_jobs db user = []"
      using assigned_jobs_nonempty [of db user] by simp
    with tech False show ?thesis
      by (simp add: TechnicianDashboardView_get_def)
  qed
qed

theorem dashboard_response_shape_witness:
  "(\<exists>g. TechnicianDashboardView_get
       (example_db [example_job 1 ''PENDING'' None False 7] [])
       100 \<lparr>user_id = 7, role = ''TECHNICIAN''\<rparr>
      = Dashboard g \<lparr>total_active_jobs = length (g_today g) + length (g_upcoming g)
                        + length (g_overdue g) + length (g_unscheduled g),
                      today_count = length (g_today g),
                      overdue_count = length (g_overdue g)\<rparr>)
   \<and> TechnicianDashboardView_get
       (example_db [example_job 1 ''PENDING'' None False 7] [])
       100 \<lparr>user_id = 8, role = ''TECHNICIAN''\<rparr> = Detail 200 ''No jobs assigned yet''"
  using dashboard_response_shape [of "\<lparr>user_id = 7, role = ''TECHNICIAN''\<rparr>"
      "example_db [example_job 1 ''PENDING'' None False 7] []" 100]
    dashboard_response_shape [of "\<lparr>user_id = 8, role = ''TECHNICIAN''\<rparr>"
      "example_db [example_job 1 ''PENDING'' None False 7] []" 100]
  by (simp add: example_db_def example_job_def)

text \<open>
  The claim C9 as stated fails for a technician with no assigned job: the response is a bare
  message, not four empty buckets with zero counts.
\<close>

theorem dashboard_no_jobs_counterexample:
  "TechnicianDashboardView_get (example_db [] []) 100 \<lparr>user_id = 7, role = ''TECHNICIAN''\<rparr>
     = Detail 200 ''No jobs assigned yet''"
  by (simp add: TechnicianDashboardView_get_def assigned_jobs_def example_db_def)

text \<open>
  Claim C10. For a technician and a job assigned to them, the dashboard is returned and the
  job's \<open>job_data\<close> is in the buckets exactly when its status is not COMPLETED (so for
  CANCELLED, PENDING and IN_PROGRESS); a CANCELLED job scheduled on an earlier date is in
  the overdue bucket.
\<close>

theorem dashboard_excludes_only_completed:
  assumes tech: "role user = ''TECHNICIAN''"
    and jin: "j \<in> set (jobs db)"
    and mine: "assigned_to j = user_id user"
  shows "\<exists>g s. TechnicianDashboardView_get db today user = Dashboard g s
     \<and> ((job_data_of db j \<in> set (g_today g @ g_upcoming g @ g_overdue g @ g_unscheduled g))
          = (job_status j \<noteq> ''COMPLETED''))
     \<and> (\<forall>d. job_status j = ''CANCELLED'' \<and> scheduled_date j = Some d \<and> date_of d < today
            \<longrightarrow> job_data_of db j \<in> set (g_overdue g))"
proof -
  from jin mine have some: "\<exists>j \<in> set (jobs db). assigned_to j = user_id user" by blast
  from TechnicianDashboardView_get_buckets [OF tech some, of today]
  obtain g s where run: "TechnicianDashboardView_get db today user = Dashboard g s"
    and t: "g_today g = map (job_data_of db)
         (filter (\<lambda>j. job_status j \<noteq> ''COMPLETED'' \<and>
            (case scheduled_date j of None \<Rightarrow> False | Some d \<Rightarrow> date_of d = today))
            (assigned_jobs db user))"
    and u: "g_upcoming g = map (job_data_of db)
         (filter (\<lambda>j. job_status j \<noteq> ''COMPLETED'' \<and>
            (case scheduled_date j of None \<Rightarrow> False | Some d \<Rightarrow> today < date_of d))
            (assigned_jobs db user))"
    and od: "g_overdue g = map (job_data_of db)
         (filter (\<lambda>j. job_status j \<noteq> ''COMPLETED'' \<and>
            (case scheduled_date j of None \<Rightarrow> False | Some d \<Rightarrow> date_of d < today))
            (assigned_jobs db user))"
    and un: "g_unscheduled g = map (job_data_of db)
         (filter (\<lambda>j. job_status j \<noteq> ''COMPLETED'' \<and> scheduled_date j = None)
            (assigned_jobs db user))"
    by blast
  have all_active: "\<forall>x \<in> set (g_today g @ g_upcoming g @ g_overdue g @ g_unscheduled g).
      jd_status x \<noteq> ''COMPLETED''"
    unfolding t u od un by (auto simp: jd_status_job_data_of)
  have only_if: "job_data_of db j \<in> set (g_today g @ g_upcoming g @ g_overdue g @ g_unscheduled g)
      \<Longrightarrow> job_status j \<noteq> ''COMPLETED''"
    using all_active jd_status_job_data_of [of db j] by metis
  have "if": "job_status j \<noteq> ''COMPLETED'' \<Longrightarrow>
      job_data_of db j \<in> set (g_today g @ g_upcoming g @ g_overdue g @ g_unscheduled g)"
  proof -
    assume active: "job_status j \<noteq> ''COMPLETED''"
    show ?thesis
    proof (cases "scheduled_date j")
      case None
      with active have "job_data_of db j \<in> set (g_unscheduled g)"
        unfolding un by (intro in_bucket [OF jin mine]) simp
      then show ?thesis by simp
    next
      case (Some d)
      consider "date_of d = today" | "today < date_of d" | "date_of d < today" by linarith
      then show ?thesis
      proof cases
        case 1
        with active Some have "job_data_of db j \<in> set (g_today g)"
          unfolding t by (intro in_bucket [OF jin mine]) simp
        then show ?thesis by simp
      next
        case 2
        with active Some have "job_data_of db j \<in> set (g_upcoming g)"
          unfolding u by (intro in_bucket [OF jin mine]) simp
        then show ?thesis by simp
      next
        case 3
        with active Some have "job_data_of db j \<in> set (g_overdue g)"
          unfolding od by (intro in_bucket [OF jin mine]) simp
        then show ?thesis by simp
      qed
    qed
  qed
  have cancelled: "\<forall>d. job_status j = ''CANCELLED'' \<and> scheduled_date j = Some d \<and> date_of d < today
            \<longrightarrow> job_data_of db j \<in> set (g_overdue g)"
  proof (intro allI impI)
    fix d assume h: "job_status j = ''CANCELLED'' \<and> scheduled_date j = Some d \<and> date_of d < today"
    then show "job_data_of db j \<in> set (g_overdue g)"
      unfolding od by (intro in_bucket [OF jin mine]) simp
  qed
  from only_if "if" have "(job_data_of db j \<in> set (g_today g @ g_upcoming g @ g_overdue g @ g_unscheduled g))
          = (job_status j \<noteq> ''COMPLETED'')"
    by blast
  with run cancelled show ?thesis by blast
qed

theorem dashboard_excludes_only_completed_witness:
  "\<exists>g s. TechnicianDashboardView_get
       (example_db [example_job 1 ''CANCELLED'' (Some 5) False 7] [])
       100 \<lparr>user_id = 7, role = ''TECHNICIAN''\<rparr> = Dashboard g s
     \<and> job_data_of (example_db [example_job 1 ''CANCELLED'' (Some 5) False 7] [])
          (example_job 1 ''CANCELLED'' (Some 5) False 7) \<in> set (g_overdue g)"
  using dashboard_excludes_only_completed [of "\<lparr>user_id = 7, role = ''TECHNICIAN''\<rparr>"
      "example_job 1 ''CANCELLED'' (Some 5) False 7"
      "example_db [example_job 1 ''CANCELLED'' (Some 5) False 7] []" 100]
  by (simp add: example_db_def example_job_def date_of_def) blast

end
